theory Spec2Isabelle
  imports Main "HOL-Library.Word"
begin

section \<open>The text-chat relay of lab4: data model\<close>

text \<open>
  The development embeds \<^verbatim>\<open>src/lab4/server.c\<close> and the receive loop of
  \<^verbatim>\<open>src/lab4/client.c\<close>.

  \<^item> A C string held in a \<^verbatim>\<open>char\<close> array is a \<open>string\<close>: the bytes before the
    terminating NUL. \<^verbatim>\<open>strcmp(a, b) == 0\<close> is equality, \<^verbatim>\<open>strlen(a) == 0\<close> is
    \<open>a = []\<close>, \<^verbatim>\<open>memset(a, 0, n)\<close> makes the field \<open>[]\<close>.
  \<^item> Where the C code would write past an array, the model stops with a \<open>fault\<close>:
    the C behaviour is undefined from there on and nothing is claimed about it.
  \<^item> \<^verbatim>\<open>strncpy\<close> into a name field copies at most \<open>MAX_NAME\<close> bytes.  A field that
    holds \<open>MAX_NAME\<close> bytes has no terminator; the model keeps those bytes and reads
    the field as them, while \<^verbatim>\<open>strlen\<close> and \<^verbatim>\<open>strcmp\<close> of the C program go on into the
    bytes behind the array, which the model does not have.
  \<^item> \<^verbatim>\<open>unsigned int\<close> is \<open>32 word\<close>.
  \<^item> \<^verbatim>\<open>client_t\<close> objects live in a heap indexed by their address; the linked list
    \<^verbatim>\<open>client_list\<close> is the list of addresses from the head on.  A \<^verbatim>\<open>session_t\<close>
    node holds nothing but its name, so \<^verbatim>\<open>session_list\<close> is the list of names
    from the head on.
  \<^item> Every \<^verbatim>\<open>send\<close> on a socket is appended to \<open>outbox\<close> as the pair of the descriptor
    and the bytes handed to \<^verbatim>\<open>send\<close>; a failing or partial \<^verbatim>\<open>send\<close> is not modelled
    (the server ignores the return value).
  \<^item> \<open>process_message\<close> is the handling of one frame with no other thread running
    in between.  The threads of the server do interleave inside a frame; for the
    LOGIN case, where the test and the write of the identifier are not under one
    lock, the two halves are steps of their own (\<open>tstep\<close>).
\<close>

definition MAX_NAME :: nat where "MAX_NAME = 50"
definition MAX_DATA :: nat where "MAX_DATA = 1024"

type_synonym u32 = "32 word"

definition LOGIN :: u32 where "LOGIN = 1"
definition LO_ACK :: u32 where "LO_ACK = 2"
definition LO_NAK :: u32 where "LO_NAK = 3"
definition EXIT :: u32 where "EXIT = 4"
definition JOIN :: u32 where "JOIN = 5"
definition JN_ACK :: u32 where "JN_ACK = 6"
definition JN_NAK :: u32 where "JN_NAK = 7"
definition LEAVE_SESS :: u32 where "LEAVE_SESS = 8"
definition NEW_SESS :: u32 where "NEW_SESS = 9"
definition NS_ACK :: u32 where "NS_ACK = 10"
definition MESSAGE :: u32 where "MESSAGE = 11"
definition QUERY :: u32 where "QUERY = 12"
definition QU_ACK :: u32 where "QU_ACK = 13"

text \<open>\<^verbatim>\<open>struct message\<close>; the field \<^verbatim>\<open>size\<close> is \<open>size_m\<close> here.\<close>

record message =
  type :: u32
  size_m :: u32
  source :: string
  data :: string

text \<open>\<^verbatim>\<open>client_t\<close> without its \<^verbatim>\<open>next\<close> pointer; the field \<^verbatim>\<open>id\<close> is \<open>id_c\<close> here.\<close>

record client_t =
  sockfd :: int
  id_c :: string
  session :: string

datatype fault = BufferOverflow

record server =
  heap :: "nat \<Rightarrow> client_t"
  client_list :: "nat list"
  session_list :: "string list"
  outbox :: "(int \<times> string) list"

definition allowed_users :: "(string \<times> string) list" where
  "allowed_users = [(''ken'', ''12345''), (''andy'', ''12345'')]"

text \<open>The state at start-up: both lists are \<^verbatim>\<open>NULL\<close>, nothing has been sent.\<close>

definition blank_client :: client_t where
  "blank_client = \<lparr>sockfd = 0, id_c = [], session = []\<rparr>"

definition init_server :: server where
  "init_server = \<lparr>heap = (\<lambda>_. blank_client), client_list = [], session_list = [], outbox = []\<rparr>"

section \<open>Wire codec\<close>

subsection \<open>Encoding: \<^verbatim>\<open>send_message_to_client\<close>\<close>

definition digit_char :: "nat \<Rightarrow> char" where
  "digit_char d = ''0123456789'' ! d"

text \<open>The conversion \<^verbatim>\<open>%u\<close> of \<^verbatim>\<open>printf\<close>: decimal, no leading zeros.\<close>

fun dec :: "nat \<Rightarrow> string" where
  "dec n = (if n < 10 then [digit_char n] else dec (n div 10) @ [digit_char (n mod 10)])"

declare dec.simps [simp del]

definition newline :: char where "newline = CHR 0x0A"
definition colon :: char where "colon = CHR '':''"
definition NUL :: char where "NUL = CHR 0x00"

text \<open>What \<^verbatim>\<open>snprintf(buffer, sizeof(buffer), "%u:%u:%s:%s\n", ...)\<close> would write in full.\<close>

definition format_message :: "message \<Rightarrow> string" where
  "format_message msg =
     dec (unat (type msg)) @ [colon] @ dec (unat (size_m msg)) @ [colon] @
     source msg @ [colon] @ data msg @ [newline]"

text \<open>
  \<^verbatim>\<open>snprintf\<close> returns the full length \<open>n\<close> and stores at most 2047 bytes and a NUL;
  \<^verbatim>\<open>send(sockfd, buffer, n, 0)\<close> then sends \<open>n\<close> bytes of the 2048-byte buffer, which
  reads past it when \<open>n > 2048\<close>.
\<close>

definition send_message_to_client :: "server \<Rightarrow> int \<Rightarrow> message \<Rightarrow> fault + server" where
  "send_message_to_client s fd msg =
     (let line = format_message msg; n = length line in
      if n < 2048 then Inr (s\<lparr>outbox := outbox s @ [(fd, line)]\<rparr>)
      else if n = 2048 then Inr (s\<lparr>outbox := outbox s @ [(fd, take 2047 line @ [NUL])]\<rparr>)
      else Inl BufferOverflow)"

subsection \<open>Reading a line: \<^verbatim>\<open>read_line\<close>\<close>

text \<open>
  The bytes still to arrive on the socket are a \<open>string\<close>; at its end \<^verbatim>\<open>recv\<close>
  returns 0 (the peer has closed).  An error return of \<^verbatim>\<open>recv\<close> (-1) is handled by
  the callers exactly like 0 and is not modelled apart.  The result is the return
  value, the bytes stored in \<^verbatim>\<open>buffer\<close> and the bytes left on the socket.
\<close>

fun read_line_from :: "nat \<Rightarrow> nat \<Rightarrow> string \<Rightarrow> string \<Rightarrow> int \<times> string \<times> string" where
  "read_line_from max_len total_n buffer [] =
     (if total_n < max_len - 1 then (0, buffer, []) else (int total_n, buffer, []))"
| "read_line_from max_len total_n buffer (ch # rest) =
     (if total_n < max_len - 1
      then (if ch = newline then (int total_n, buffer, rest)
            else read_line_from max_len (Suc total_n) (buffer @ [ch]) rest)
      else (int total_n, buffer, ch # rest))"

definition read_line :: "string \<Rightarrow> nat \<Rightarrow> int \<times> string \<times> string" where
  "read_line input max_len = read_line_from max_len 0 [] input"

text \<open>The buffer is used as a C string: it ends at the first NUL byte received.\<close>

definition c_str :: "string \<Rightarrow> string" where
  "c_str buffer = takeWhile (\<lambda>c. c \<noteq> NUL) buffer"

subsection \<open>Decoding: \<^verbatim>\<open>sscanf(buffer, "%u:%u:%[^:]:%[^\n]", ...)\<close>\<close>

definition isspace :: "char \<Rightarrow> bool" where
  "isspace c = (c \<in> set [CHR 0x20, CHR 0x09, CHR 0x0A, CHR 0x0B, CHR 0x0C, CHR 0x0D])"

definition isdigit :: "char \<Rightarrow> bool" where
  "isdigit c = (48 \<le> (of_char c :: nat) \<and> (of_char c :: nat) \<le> 57)"

definition digit_val :: "char \<Rightarrow> nat" where
  "digit_val c = of_char c - 48"

definition digits_value :: "string \<Rightarrow> nat" where
  "digits_value ds = foldl (\<lambda>a c. 10 * a + digit_val c) 0 ds"

text \<open>
  The value \<^verbatim>\<open>%u\<close> stores for a digit string, as glibc on a 64-bit target computes it:
  \<^verbatim>\<open>strtoul\<close> saturates at \<open>2^64 - 1\<close>, a leading minus negates, and the result is
  truncated to \<^verbatim>\<open>unsigned int\<close>.  (ISO C leaves values that do not fit undefined.)
\<close>

definition strtoul_u32 :: "bool \<Rightarrow> nat \<Rightarrow> u32" where
  "strtoul_u32 neg n =
     (if 2 ^ 64 \<le> n then - 1 else if neg then - of_nat n else of_nat n)"

text \<open>
  \<^verbatim>\<open>%u\<close>: skip white space, take an optional sign and a non-empty run of digits.
  \<open>None\<close> is a matching failure.
\<close>

definition scan_u :: "string \<Rightarrow> (u32 \<times> string) option" where
  "scan_u s =
     (let s1 = dropWhile isspace s;
          neg = (s1 \<noteq> [] \<and> hd s1 = CHR ''-'');
          s2 = (if s1 \<noteq> [] \<and> (hd s1 = CHR ''-'' \<or> hd s1 = CHR ''+'') then tl s1 else s1);
          ds = takeWhile isdigit s2
      in if ds = [] then None
         else Some (strtoul_u32 neg (digits_value ds), dropWhile isdigit s2))"

text \<open>\<^verbatim>\<open>%[^x]\<close>: a non-empty run of bytes other than \<open>x\<close>, no white space skipped.\<close>

definition scan_until :: "char \<Rightarrow> string \<Rightarrow> (string \<times> string) option" where
  "scan_until x s =
     (let m = takeWhile (\<lambda>c. c \<noteq> x) s
      in if m = [] then None else Some (m, dropWhile (\<lambda>c. c \<noteq> x) s))"

text \<open>A literal \<^verbatim>\<open>:\<close> of the format.\<close>

definition scan_colon :: "string \<Rightarrow> string option" where
  "scan_colon s = (case s of [] \<Rightarrow> None | c # r \<Rightarrow> if c = colon then Some r else None)"

text \<open>The message after \<^verbatim>\<open>memset(&msg, 0, sizeof(msg))\<close>.\<close>

definition zero_message :: message where
  "zero_message = \<lparr>type = 0, size_m = 0, source = [], data = []\<rparr>"

text \<open>
  The result is the number of fields assigned and the message as \<^verbatim>\<open>sscanf\<close> leaves
  it, starting from \<open>msg\<close>.  The return value \<^verbatim>\<open>EOF\<close> of an input that ends before the
  first conversion is counted as no field: both callers only test \<^verbatim>\<open>fields < 3\<close>.
  \<^verbatim>\<open>%[^:]\<close> and \<^verbatim>\<open>%[^\n]\<close> carry no width, so a source of \<open>MAX_NAME\<close> bytes or more and
  a payload of \<open>MAX_DATA\<close> bytes or more are written past their arrays.
\<close>

definition sscanf_message :: "message \<Rightarrow> string \<Rightarrow> fault + (nat \<times> message)" where
  "sscanf_message msg buffer =
     (case scan_u buffer of
        None \<Rightarrow> Inr (0, msg)
      | Some (t, r1) \<Rightarrow>
     (case scan_colon r1 of
        None \<Rightarrow> Inr (1, msg\<lparr>type := t\<rparr>)
      | Some r1' \<Rightarrow>
     (case scan_u r1' of
        None \<Rightarrow> Inr (1, msg\<lparr>type := t\<rparr>)
      | Some (sz, r2) \<Rightarrow>
     (case scan_colon r2 of
        None \<Rightarrow> Inr (2, msg\<lparr>type := t, size_m := sz\<rparr>)
      | Some r2' \<Rightarrow>
     (case scan_until colon r2' of
        None \<Rightarrow> Inr (2, msg\<lparr>type := t, size_m := sz\<rparr>)
      | Some (src, r3) \<Rightarrow>
          if MAX_NAME \<le> length src then Inl BufferOverflow
          else
     (case scan_colon r3 of
        None \<Rightarrow> Inr (3, msg\<lparr>type := t, size_m := sz, source := src\<rparr>)
      | Some r3' \<Rightarrow>
     (case scan_until newline r3' of
        None \<Rightarrow> Inr (3, msg\<lparr>type := t, size_m := sz, source := src\<rparr>)
      | Some (d, r4) \<Rightarrow>
          if MAX_DATA \<le> length d then Inl BufferOverflow
          else Inr (4, msg\<lparr>type := t, size_m := sz, source := src, data := d\<rparr>))))))))"

section \<open>Registries\<close>

text \<open>
  \<^verbatim>\<open>strncpy(dst, src, MAX_NAME)\<close> into a \<^verbatim>\<open>char[MAX_NAME]\<close> field: the field holds
  the first \<open>MAX_NAME\<close> bytes of \<open>src\<close>, all of \<open>src\<close> when it is shorter (the rest of
  the field is then filled with NUL).
\<close>

definition strncpy_name :: "string \<Rightarrow> string" where
  "strncpy_name src = take MAX_NAME src"

fun is_valid_user_from :: "(string \<times> string) list \<Rightarrow> string \<Rightarrow> string \<Rightarrow> bool" where
  "is_valid_user_from [] i password = False"
| "is_valid_user_from ((u, pw) # rest) i password =
     (if u = i \<and> pw = password then True else is_valid_user_from rest i password)"

definition is_valid_user :: "string \<Rightarrow> string \<Rightarrow> bool" where
  "is_valid_user i password = is_valid_user_from allowed_users i password"

fun is_already_logged_in_from :: "(nat \<Rightarrow> client_t) \<Rightarrow> nat list \<Rightarrow> string \<Rightarrow> bool" where
  "is_already_logged_in_from h [] i = False"
| "is_already_logged_in_from h (cur # rest) i =
     (if id_c (h cur) = i then True else is_already_logged_in_from h rest i)"

definition is_already_logged_in :: "server \<Rightarrow> string \<Rightarrow> bool" where
  "is_already_logged_in s i = is_already_logged_in_from (heap s) (client_list s) i"

definition add_client :: "server \<Rightarrow> nat \<Rightarrow> server" where
  "add_client s client = s\<lparr>client_list := client # client_list s\<rparr>"

fun unlink_client :: "nat list \<Rightarrow> nat \<Rightarrow> nat list" where
  "unlink_client [] client = []"
| "unlink_client (cur # rest) client =
     (if cur = client then rest else cur # unlink_client rest client)"

definition remove_client :: "server \<Rightarrow> nat \<Rightarrow> server" where
  "remove_client s client = s\<lparr>client_list := unlink_client (client_list s) client\<rparr>"

text \<open>\<^verbatim>\<open>find_session\<close> returns the node found; only its being \<^verbatim>\<open>NULL\<close> or not is used.\<close>

fun find_session_from :: "string list \<Rightarrow> string \<Rightarrow> string option" where
  "find_session_from [] session_id = None"
| "find_session_from (cur # rest) session_id =
     (if cur = session_id then Some cur else find_session_from rest session_id)"

definition find_session :: "server \<Rightarrow> string \<Rightarrow> string option" where
  "find_session s session_id = find_session_from (session_list s) session_id"

definition add_session :: "server \<Rightarrow> string \<Rightarrow> server" where
  "add_session s session_id = s\<lparr>session_list := strncpy_name session_id # session_list s\<rparr>"

fun session_has_clients_from :: "(nat \<Rightarrow> client_t) \<Rightarrow> nat list \<Rightarrow> string \<Rightarrow> bool" where
  "session_has_clients_from h [] session_id = False"
| "session_has_clients_from h (cur # rest) session_id =
     (if session (h cur) = session_id then True
      else session_has_clients_from h rest session_id)"

definition session_has_clients :: "server \<Rightarrow> string \<Rightarrow> bool" where
  "session_has_clients s session_id =
     session_has_clients_from (heap s) (client_list s) session_id"

fun unlink_session :: "string list \<Rightarrow> string \<Rightarrow> string list" where
  "unlink_session [] session_id = []"
| "unlink_session (cur # rest) session_id =
     (if cur = session_id then rest else cur # unlink_session rest session_id)"

definition remove_session_if_empty :: "server \<Rightarrow> string \<Rightarrow> server" where
  "remove_session_if_empty s session_id =
     (if session_has_clients s session_id then s
      else s\<lparr>session_list := unlink_session (session_list s) session_id\<rparr>)"

section \<open>Broadcast\<close>

fun broadcast_from :: "server \<Rightarrow> nat list \<Rightarrow> string \<Rightarrow> message \<Rightarrow> string \<Rightarrow> fault + server" where
  "broadcast_from s [] session_id msg sender = Inr s"
| "broadcast_from s (cur # rest) session_id msg sender =
     (if session (heap s cur) = session_id \<and> id_c (heap s cur) \<noteq> sender
      then (case send_message_to_client s (sockfd (heap s cur)) msg of
              Inl e \<Rightarrow> Inl e
            | Inr s' \<Rightarrow> broadcast_from s' rest session_id msg sender)
      else broadcast_from s rest session_id msg sender)"

definition broadcast_message :: "server \<Rightarrow> string \<Rightarrow> message \<Rightarrow> string \<Rightarrow> fault + server" where
  "broadcast_message s session_id msg sender =
     broadcast_from s (client_list s) session_id msg sender"

section \<open>The protocol engine: \<^verbatim>\<open>process_message\<close>\<close>

text \<open>The reply after \<^verbatim>\<open>memset\<close> and \<^verbatim>\<open>strncpy(reply.source, "server", MAX_NAME)\<close>.\<close>

definition reply0 :: message where
  "reply0 = \<lparr>type = 0, size_m = 0, source = ''server'', data = []\<rparr>"

text \<open>\<^verbatim>\<open>reply.size = strlen((char*)reply.data)\<close>.\<close>

definition with_size :: "message \<Rightarrow> message" where
  "with_size reply = reply\<lparr>size_m := of_nat (length (data reply))\<rparr>"

definition set_id :: "server \<Rightarrow> nat \<Rightarrow> string \<Rightarrow> server" where
  "set_id s client i = s\<lparr>heap := (heap s)(client := (heap s client)\<lparr>id_c := i\<rparr>)\<rparr>"

definition set_session :: "server \<Rightarrow> nat \<Rightarrow> string \<Rightarrow> server" where
  "set_session s client n = s\<lparr>heap := (heap s)(client := (heap s client)\<lparr>session := n\<rparr>)\<rparr>"

text \<open>
  The LOGIN case in its two halves.  The condition of the \<^verbatim>\<open>if\<close>: \<^verbatim>\<open>is_valid_user\<close>
  reads the constant table, \<^verbatim>\<open>is_already_logged_in\<close> reads the identifiers of the
  client list under \<^verbatim>\<open>clients_mutex\<close> and releases it before it returns.
\<close>

definition login_test :: "server \<Rightarrow> message \<Rightarrow> bool" where
  "login_test s msg =
     (is_valid_user (source msg) (data msg) \<and> \<not> is_already_logged_in s (source msg))"

text \<open>
  The branch taken on the outcome \<open>ok\<close> of the condition, run with no lock held:
  the identifier is written and LO\_ACK sent, or LO\_NAK sent.
\<close>

definition login_act :: "server \<Rightarrow> nat \<Rightarrow> message \<Rightarrow> bool \<Rightarrow> fault + server" where
  "login_act s client msg ok =
     (if ok
      then send_message_to_client (set_id s client (strncpy_name (source msg)))
             (sockfd (heap s client))
             (with_size (reply0\<lparr>type := LO_ACK, data := ''Login successful''\<rparr>))
      else send_message_to_client s (sockfd (heap s client))
             (with_size (reply0\<lparr>type := LO_NAK,
                                 data := ''Invalid credentials or already logged in''\<rparr>)))"

text \<open>The line \<^verbatim>\<open>snprintf(line, sizeof(line), "%s (session: %s), ", ...)\<close> of QUERY.\<close>

definition client_line :: "client_t \<Rightarrow> string" where
  "client_line c =
     take 127 (id_c c @ '' (session: '' @
               (if session c \<noteq> [] then session c else ''None'') @ ''), '')"

definition query_list :: "server \<Rightarrow> string" where
  "query_list s =
     ''Clients: '' @ concat (map (\<lambda>cur. client_line (heap s cur)) (client_list s)) @
     '' Sessions: '' @ concat (map (\<lambda>sess. sess @ '', '') (session_list s))"

definition process_message :: "server \<Rightarrow> nat \<Rightarrow> message \<Rightarrow> fault + server" where
  "process_message s client msg =
     (if type msg = LOGIN then
        login_act s client msg (login_test s msg)
      else if type msg = EXIT then
        (let s1 = (if session (heap s client) \<noteq> []
                   then (let s0 = set_session s client []
                         in remove_session_if_empty s0 (session (heap s0 client)))
                   else s)
         in send_message_to_client s1 (sockfd (heap s1 client)) (reply0\<lparr>type := EXIT\<rparr>))
      else if type msg = JOIN then
        (if find_session s (data msg) = None
         then send_message_to_client s (sockfd (heap s client))
                (with_size (reply0\<lparr>type := JN_NAK, data := ''Session does not exist''\<rparr>))
         else if session (heap s client) \<noteq> []
         then send_message_to_client s (sockfd (heap s client))
                (with_size (reply0\<lparr>type := JN_NAK, data := ''Already in a session''\<rparr>))
         else send_message_to_client (set_session s client (strncpy_name (data msg)))
                (sockfd (heap s client))
                (with_size (reply0\<lparr>type := JN_ACK, data := ''Joined session''\<rparr>)))
      else if type msg = NEW_SESS then
        (if session (heap s client) \<noteq> []
         then send_message_to_client s (sockfd (heap s client))
                (with_size (reply0\<lparr>type := NS_ACK, data := ''Already in a session''\<rparr>))
         else if find_session s (data msg) \<noteq> None
         then send_message_to_client s (sockfd (heap s client))
                (with_size (reply0\<lparr>type := NS_ACK, data := ''Session already exists''\<rparr>))
         else send_message_to_client
                (set_session (add_session s (data msg)) client (strncpy_name (data msg)))
                (sockfd (heap s client))
                (with_size (reply0\<lparr>type := NS_ACK, data := ''Session created''\<rparr>)))
      else if type msg = LEAVE_SESS then
        (if session (heap s client) = []
         then send_message_to_client s (sockfd (heap s client))
                (with_size (reply0\<lparr>data := ''Not in a session'', type := LEAVE_SESS\<rparr>))
         else (let s1 = remove_session_if_empty (set_session s client []) (data msg)
               in send_message_to_client s1 (sockfd (heap s client))
                    (with_size (reply0\<lparr>data := ''Left session'', type := LEAVE_SESS\<rparr>))))
      else if type msg = MESSAGE then
        (if session (heap s client) \<noteq> []
         then broadcast_message s (session (heap s client)) msg (id_c (heap s client))
         else Inr s)
      else if type msg = QUERY then
        (let list = query_list s
         in if MAX_DATA \<le> length list then Inl BufferOverflow
            else send_message_to_client s (sockfd (heap s client))
                   (with_size (reply0\<lparr>type := QU_ACK, data := list\<rparr>)))
      else Inr s)"

section \<open>The connection handler: \<^verbatim>\<open>handle_client\<close>\<close>

text \<open>
  The prologue: \<^verbatim>\<open>malloc\<close> returns the address \<open>client\<close>, the fields are set and
  \<^verbatim>\<open>add_client\<close> links the object, before any frame is read.
\<close>

definition accept_client :: "server \<Rightarrow> nat \<Rightarrow> int \<Rightarrow> server" where
  "accept_client s client fd =
     add_client (s\<lparr>heap := (heap s)(client := \<lparr>sockfd = fd, id_c = [], session = []\<rparr>)\<rparr>) client"

text \<open>
  The body of the \<^verbatim>\<open>while\<close> loop for one line read with a positive length.  The
  result carries the flag of the \<^verbatim>\<open>break\<close> after an EXIT frame; \<^verbatim>\<open>continue\<close> and the
  normal end of the body both give \<open>False\<close>.
\<close>

definition handle_line :: "server \<Rightarrow> nat \<Rightarrow> string \<Rightarrow> fault + (server \<times> bool)" where
  "handle_line s client buffer =
     (case sscanf_message zero_message (c_str buffer) of
        Inl e \<Rightarrow> Inl e
      | Inr (nfields, msg) \<Rightarrow>
          if nfields < 3 then Inr (s, False)
          else (case process_message s client msg of
                  Inl e \<Rightarrow> Inl e
                | Inr s' \<Rightarrow> Inr (s', type msg = EXIT)))"

text \<open>
  The \<^verbatim>\<open>while\<close> loop over the bytes of one connection.  It ends when
  \<^verbatim>\<open>read_line\<close> returns 0 or less, or after an EXIT frame; the result carries the
  bytes never read.
\<close>

function handle_loop :: "server \<Rightarrow> nat \<Rightarrow> string \<Rightarrow> fault + (server \<times> string)" where
  "handle_loop s client input =
     (case read_line input 2048 of
        (n, buffer, rest) \<Rightarrow>
          if 0 < n
          then (case handle_line s client buffer of
                  Inl e \<Rightarrow> Inl e
                | Inr (s', brk) \<Rightarrow>
                    if brk then Inr (s', rest) else handle_loop s' client rest)
          else Inr (s, rest))"
  by pat_completeness auto
termination
proof -
  have from_consumes:
    "length rest \<le> length input \<and> (int total_n < n \<longrightarrow> length rest < length input)"
    if "read_line_from max_len total_n buffer input = (n, buffer', rest)"
    for max_len total_n buffer input n buffer' rest
    using that
  proof (induction input arbitrary: total_n buffer)
    case Nil
    then show ?case by (auto split: if_splits)
  next
    case (Cons ch input)
    show ?case
    proof (cases "total_n < max_len - 1 \<and> ch \<noteq> newline")
      case True
      with Cons.prems
      have "read_line_from max_len (Suc total_n) (buffer @ [ch]) input = (n, buffer', rest)"
        by simp
      from Cons.IH [OF this] show ?thesis by auto
    next
      case False
      with Cons.prems show ?thesis by (auto split: if_splits)
    qed
  qed
  have consumes: "length rest < length input"
    if "(n, buffer, rest) = read_line input 2048" and "0 < n" for input n buffer rest
    using that from_consumes [of 2048 0 "[]" input n buffer rest]
    by (simp add: read_line_def)
  show ?thesis
    by (relation "measure (\<lambda>(s, client, input). length input)")
       (auto dest: consumes)
qed

declare handle_loop.simps [simp del]

text \<open>
  The whole of \<^verbatim>\<open>handle_client\<close> for the connection \<open>fd\<close> whose object is allocated
  at \<open>client\<close>, run without another thread in between: prologue, loop, then
  \<^verbatim>\<open>remove_client\<close>.  (\<^verbatim>\<open>close\<close> and \<^verbatim>\<open>free\<close> leave the registries as they are.)
\<close>

definition handle_client :: "server \<Rightarrow> nat \<Rightarrow> int \<Rightarrow> string \<Rightarrow> fault + server" where
  "handle_client s client fd input =
     (case handle_loop (accept_client s client fd) client input of
        Inl e \<Rightarrow> Inl e
      | Inr (s', rest) \<Rightarrow> Inr (remove_client s' client))"

subsection \<open>Several connections\<close>

text \<open>
  Executions of several connections in which no thread runs while another is
  inside a frame: a connection is accepted (the prologue of \<^verbatim>\<open>handle_client\<close>), a
  line of positive length is handled by the thread of a connection (one turn of its
  loop), a thread leaves its loop and unlinks its client.  These are some of the
  executions of the server, not all of them: what \<open>run\<close> computes for a sequence
  of events is what the server does on that schedule, but a property of all runs
  is not thereby a property of the threaded program.
\<close>

datatype event = Connect nat int | Line nat string | Disconnect nat

fun step :: "server \<Rightarrow> event \<Rightarrow> fault + server" where
  "step s (Connect client fd) = Inr (accept_client s client fd)"
| "step s (Line client buffer) =
     (case handle_line s client buffer of
        Inl e \<Rightarrow> Inl e
      | Inr (s', brk) \<Rightarrow> Inr s')"
| "step s (Disconnect client) = Inr (remove_client s client)"

fun run :: "server \<Rightarrow> event list \<Rightarrow> fault + server" where
  "run s [] = Inr s"
| "run s (e # es) = (case step s e of Inl f \<Rightarrow> Inl f | Inr s' \<Rightarrow> run s' es)"

subsection \<open>Threads inside LOGIN\<close>

text \<open>
  Between the test of the LOGIN case and its branch no lock is held, so another
  thread can run there.  The thread of a client that has evaluated the test and not
  yet run its branch keeps the frame and the outcome of the test (\<open>passed\<close>); it
  does nothing else until it has run the branch.  \<open>Whole\<close> is an event handled with
  no other thread in between, as in \<open>step\<close>; \<open>LoginTest\<close> parses a line and, for a
  LOGIN frame, evaluates the test; \<open>LoginAct\<close> runs the branch.
\<close>

record threaded =
  shared :: server
  passed :: "nat \<Rightarrow> (message \<times> bool) option"

datatype tevent = Whole event | LoginTest nat string | LoginAct nat

fun event_client :: "event \<Rightarrow> nat" where
  "event_client (Connect client fd) = client"
| "event_client (Line client buffer) = client"
| "event_client (Disconnect client) = client"

fun tstep :: "threaded \<Rightarrow> tevent \<Rightarrow> fault + threaded" where
  "tstep t (Whole e) =
     (if passed t (event_client e) \<noteq> None then Inr t
      else (case step (shared t) e of
              Inl f \<Rightarrow> Inl f
            | Inr s' \<Rightarrow> Inr (t\<lparr>shared := s'\<rparr>)))"
| "tstep t (LoginTest client buffer) =
     (if passed t client \<noteq> None then Inr t
      else (case sscanf_message zero_message (c_str buffer) of
              Inl f \<Rightarrow> Inl f
            | Inr (nfields, msg) \<Rightarrow>
                if 3 \<le> nfields \<and> type msg = LOGIN
                then Inr (t\<lparr>passed := (passed t)(client \<mapsto> (msg, login_test (shared t) msg))\<rparr>)
                else Inr t))"
| "tstep t (LoginAct client) =
     (case passed t client of
        None \<Rightarrow> Inr t
      | Some (msg, ok) \<Rightarrow>
          (case login_act (shared t) client msg ok of
             Inl f \<Rightarrow> Inl f
           | Inr s' \<Rightarrow> Inr (t\<lparr>shared := s', passed := (passed t)(client := None)\<rparr>)))"

fun trun :: "threaded \<Rightarrow> tevent list \<Rightarrow> fault + threaded" where
  "trun t [] = Inr t"
| "trun t (e # es) = (case tstep t e of Inl f \<Rightarrow> Inl f | Inr t' \<Rightarrow> trun t' es)"

definition init_threaded :: threaded where
  "init_threaded = \<lparr>shared = init_server, passed = (\<lambda>_. None)\<rparr>"

text \<open>
  What can be observed of a state: the registered clients from the head of the list
  on, the sessions from the head on, and everything sent so far.
\<close>

definition view :: "server \<Rightarrow> (nat \<times> client_t) list \<times> string list \<times> (int \<times> string) list" where
  "view s = (map (\<lambda>cur. (cur, heap s cur)) (client_list s), session_list s, outbox s)"

definition view_of :: "fault + server \<Rightarrow>
    fault + (nat \<times> client_t) list \<times> string list \<times> (int \<times> string) list" where
  "view_of r = (case r of Inl e \<Rightarrow> Inl e | Inr s \<Rightarrow> Inr (view s))"

definition shared_view_of :: "fault + threaded \<Rightarrow>
    fault + (nat \<times> client_t) list \<times> string list \<times> (int \<times> string) list" where
  "shared_view_of r = (case r of Inl e \<Rightarrow> Inl e | Inr t \<Rightarrow> Inr (view (shared t)))"

text \<open>
  Invariant I1 of the specification, on the registry as the code keeps it: two
  different registered clients never hold the same non-empty identifier.  (A client
  that has not logged in holds the empty identifier.)
\<close>

definition unique_ids :: "server \<Rightarrow> bool" where
  "unique_ids s =
     (\<forall>p \<in> set (client_list s). \<forall>q \<in> set (client_list s).
        p \<noteq> q \<and> id_c (heap s p) \<noteq> [] \<longrightarrow> id_c (heap s p) \<noteq> id_c (heap s q))"

section \<open>The receive loop of the client: \<^verbatim>\<open>receive_handler\<close>\<close>

text \<open>
  The globals of \<^verbatim>\<open>client.c\<close> that the receive loop touches, and the lines it
  prints.
\<close>

record client_state =
  loggedIn :: bool
  current_session :: string
  pending_session :: string
  console :: "string list"

text \<open>The \<^verbatim>\<open>switch\<close> on the type of a parsed frame.\<close>

definition receive_dispatch :: "client_state \<Rightarrow> message \<Rightarrow> client_state" where
  "receive_dispatch cs msg =
     (if type msg = LO_NAK then
        cs\<lparr>console := console cs @ [''[warning]: '' @ data msg]\<rparr>
      else if type msg = JN_ACK then
        cs\<lparr>current_session := strncpy_name (pending_session cs), pending_session := [],
           console := console cs @ [''Current session: '' @ strncpy_name (pending_session cs)]\<rparr>
      else if type msg = JN_NAK then
        cs\<lparr>pending_session := [], console := console cs @ [''[warning]: '' @ data msg]\<rparr>
      else if type msg = NS_ACK then
        (if data msg = ''Session created''
         then cs\<lparr>current_session := strncpy_name (pending_session cs), pending_session := [],
                 console := console cs @
                   [''Current session: '' @ strncpy_name (pending_session cs)]\<rparr>
         else cs\<lparr>pending_session := [],
                 console := console cs @ [''[warning]: '' @ data msg]\<rparr>)
      else if type msg = QU_ACK then
        cs\<lparr>console := console cs @ [data msg]\<rparr>
      else if type msg = MESSAGE then
        cs\<lparr>console := console cs @ [''['' @ source msg @ '']: '' @ data msg]\<rparr>
      else cs)"

text \<open>
  One turn of the loop for a line of positive length.  \<^verbatim>\<open>msg\<close> is declared in the
  body of the loop and is not cleared (the loop of the server clears its own with
  \<^verbatim>\<open>memset\<close>): the fields that \<^verbatim>\<open>sscanf\<close> does not assign keep what the object
  held, given here as \<open>stale\<close>.  The result is the new state and what \<^verbatim>\<open>msg\<close> holds
  at the end of the turn.
\<close>

definition receive_line ::
    "client_state \<Rightarrow> message \<Rightarrow> string \<Rightarrow> fault + (client_state \<times> message)" where
  "receive_line cs stale buffer =
     (case sscanf_message stale (c_str buffer) of
        Inl e \<Rightarrow> Inl e
      | Inr (nfields, msg) \<Rightarrow>
          if nfields < 3 then Inr (cs, msg) else Inr (receive_dispatch cs msg, msg))"

text \<open>
  The loop over the bytes the server sends.  ISO C gives the object \<^verbatim>\<open>msg\<close> of a new
  turn no value; the compiled program keeps it in one place of the stack, so that
  it still holds what the turn before left there.  The model hands it from turn to
  turn; what it holds at the first turn is the argument \<open>stale\<close>.
\<close>

function receive_handler :: "client_state \<Rightarrow> message \<Rightarrow> string \<Rightarrow> fault + client_state" where
  "receive_handler cs stale input =
     (case read_line input 2048 of
        (n, buffer, rest) \<Rightarrow>
          if n \<le> 0
          then Inr (cs\<lparr>loggedIn := False,
                       console := console cs @ [''Disconnected from server.'']\<rparr>)
          else (case receive_line cs stale buffer of
                  Inl e \<Rightarrow> Inl e
                | Inr (cs', msg) \<Rightarrow> receive_handler cs' msg rest))"
  by pat_completeness auto
termination
proof -
  have from_consumes:
    "length rest \<le> length input \<and> (int total_n < n \<longrightarrow> length rest < length input)"
    if "read_line_from max_len total_n buffer input = (n, buffer', rest)"
    for max_len total_n buffer input n buffer' rest
    using that
  proof (induction input arbitrary: total_n buffer)
    case Nil
    then show ?case by (auto split: if_splits)
  next
    case (Cons ch input)
    show ?case
    proof (cases "total_n < max_len - 1 \<and> ch \<noteq> newline")
      case True
      with Cons.prems
      have "read_line_from max_len (Suc total_n) (buffer @ [ch]) input = (n, buffer', rest)"
        by simp
      from Cons.IH [OF this] show ?thesis by auto
    next
      case False
      with Cons.prems show ?thesis by (auto split: if_splits)
    qed
  qed
  have consumes: "length rest < length input"
    if "(n, buffer, rest) = read_line input 2048" and "\<not> n \<le> 0" for input n buffer rest
    using that from_consumes [of 2048 0 "[]" input n buffer rest]
    by (simp add: read_line_def)
  show ?thesis
    by (relation "measure (\<lambda>(cs, stale, input). length input)")
       (auto dest: consumes)
qed

declare receive_handler.simps [simp del]

section \<open>Example states\<close>

text \<open>ken, on descriptor 4, alone in the session A.\<close>

definition ex_in_session :: server where
  "ex_in_session =
     \<lparr>heap = (\<lambda>_. blank_client)(100 := \<lparr>sockfd = 4, id_c = ''ken'', session = ''A''\<rparr>),
      client_list = [100], session_list = [''A''], outbox = []\<rparr>"

text \<open>
  ken logged in on descriptor 4, and a second connection on descriptor 5 that has
  not logged in.
\<close>

definition ex_ken_and_guest :: server where
  "ex_ken_and_guest =
     \<lparr>heap = (\<lambda>_. blank_client)
               (100 := \<lparr>sockfd = 4, id_c = ''ken'', session = []\<rparr>,
                200 := \<lparr>sockfd = 5, id_c = [], session = []\<rparr>),
      client_list = [200, 100], session_list = [],
      outbox = [(4, ''2:16:server:Login successful\<newline>'')]\<rparr>"

text \<open>
  ken and andy logged in and a third connection that has not logged in, all three
  in the session team.
\<close>

definition ex_team :: server where
  "ex_team =
     \<lparr>heap = (\<lambda>_. blank_client)
               (100 := \<lparr>sockfd = 4, id_c = ''ken'', session = ''team''\<rparr>,
                200 := \<lparr>sockfd = 5, id_c = ''andy'', session = ''team''\<rparr>,
                300 := \<lparr>sockfd = 6, id_c = [], session = ''team''\<rparr>),
      client_list = [300, 200, 100], session_list = [''team''], outbox = []\<rparr>"

text \<open>The client program after \<^verbatim>\<open>/createsession S\<close>, waiting for the reply.\<close>

definition ex_pending :: client_state where
  "ex_pending = \<lparr>loggedIn = True, current_session = [], pending_session = ''S'', console = []\<rparr>"

section \<open>Evaluation and basic facts\<close>

lemmas type_codes =
  LOGIN_def LO_ACK_def LO_NAK_def EXIT_def JOIN_def JN_ACK_def JN_NAK_def
  LEAVE_SESS_def NEW_SESS_def NS_ACK_def MESSAGE_def QUERY_def QU_ACK_def

text \<open>The equations that evaluate a run on concrete frames.\<close>

lemmas eval_defs =
  handle_line_def sscanf_message_def scan_u_def scan_colon_def scan_until_def isspace_def
  isdigit_def digit_val_def digits_value_def strtoul_u32_def colon_def newline_def NUL_def
  zero_message_def MAX_NAME_def MAX_DATA_def c_str_def
  process_message_def type_codes send_message_to_client_def format_message_def dec.simps
  digit_char_def reply0_def with_size_def set_id_def set_session_def strncpy_name_def
  is_valid_user_def allowed_users_def is_already_logged_in_def find_session_def add_session_def
  session_has_clients_def remove_session_if_empty_def broadcast_message_def
  accept_client_def add_client_def remove_client_def query_list_def client_line_def
  view_def view_of_def init_server_def blank_client_def Let_def login_test_def login_act_def

lemma digit_char_props:
  assumes "d < 10"
  shows "digit_val (digit_char d) = d" and "isdigit (digit_char d)"
    and "digit_char d \<noteq> NUL" and "digit_char d \<noteq> colon" and "digit_char d \<noteq> newline"
    and "\<not> isspace (digit_char d)" and "digit_char d \<noteq> CHR ''-''" and "digit_char d \<noteq> CHR ''+''"
proof -
  from assms have "d \<in> {0, 1, 2, 3, 4, 5, 6, 7, 8, 9}" by auto
  then show "digit_val (digit_char d) = d" and "isdigit (digit_char d)"
    and "digit_char d \<noteq> NUL" and "digit_char d \<noteq> colon" and "digit_char d \<noteq> newline"
    and "\<not> isspace (digit_char d)" and "digit_char d \<noteq> CHR ''-''" and "digit_char d \<noteq> CHR ''+''"
    by (auto simp: digit_val_def digit_char_def isdigit_def NUL_def colon_def newline_def isspace_def)
qed

lemma dec_nonempty: "dec n \<noteq> []"
  by (subst dec.simps) simp

lemma dec_digits: "c \<in> set (dec n) \<Longrightarrow> isdigit c"
proof (induction n arbitrary: c rule: dec.induct)
  case (1 n)
  show ?case
  proof (cases "n < 10")
    case True
    with "1.prems" show ?thesis
      by (subst (asm) dec.simps) (simp add: digit_char_props)
  next
    case False
    with "1.prems" have "c \<in> set (dec (n div 10)) \<or> c = digit_char (n mod 10)"
      by (subst (asm) dec.simps) auto
    with False "1.IH" show ?thesis
      by (auto simp: digit_char_props)
  qed
qed

lemma length_dec: "0 < k \<Longrightarrow> n < 10 ^ k \<Longrightarrow> length (dec n) \<le> k"
proof (induction n arbitrary: k rule: dec.induct)
  case (1 n)
  show ?case
  proof (cases "n < 10")
    case True
    with "1.prems" show ?thesis by (subst dec.simps) simp
  next
    case False
    from "1.prems" obtain j where k: "k = Suc j"
      by (cases k) auto
    from False "1.prems" k have j: "0 < j"
      by (cases j) auto
    from "1.prems" k have "n div 10 < 10 ^ j"
      by (simp add: less_mult_imp_div_less mult.commute)
    with "1.IH" [OF False j] have "length (dec (n div 10)) \<le> j" by simp
    with False k show ?thesis by (subst dec.simps) simp
  qed
qed

lemma length_dec_u32: "length (dec (unat (w :: u32))) \<le> 10"
proof -
  have "unat w < 2 ^ 32" using unsigned_less [of w] by simp
  then have "unat w < 10 ^ 10" by simp
  then show ?thesis by (intro length_dec) simp_all
qed

lemma digits_value_snoc: "digits_value (ds @ [c]) = 10 * digits_value ds + digit_val c"
  by (simp add: digits_value_def)

lemma digits_value_dec: "digits_value (dec n) = n"
proof (induction n rule: dec.induct)
  case (1 n)
  show ?case
  proof (cases "n < 10")
    case True
    then show ?thesis
      by (subst dec.simps) (simp add: digits_value_def digit_char_props)
  next
    case False
    with "1.IH" show ?thesis
      by (subst dec.simps) (simp add: digits_value_snoc digit_char_props)
  qed
qed

lemma length_format_message:
  "length (format_message m) =
     length (dec (unat (type m))) + length (dec (unat (size_m m))) +
     length (source m) + length (data m) + 4"
  by (simp add: format_message_def)

lemma format_fits:
  assumes "length (source m) < MAX_NAME" and "length (data m) < MAX_DATA"
  shows "length (format_message m) < 2048"
  using assms length_dec_u32 [of "type m"] length_dec_u32 [of "size_m m"]
  by (simp add: length_format_message MAX_NAME_def MAX_DATA_def)

lemma send_fits:
  assumes "length (source m) < MAX_NAME" and "length (data m) < MAX_DATA"
  shows "send_message_to_client s fd m = Inr (s\<lparr>outbox := outbox s @ [(fd, format_message m)]\<rparr>)"
  using format_fits [OF assms] by (simp add: send_message_to_client_def Let_def)

lemma session_has_clients_from_iff:
  "session_has_clients_from h cs session_id \<longleftrightarrow> (\<exists>cur \<in> set cs. session (h cur) = session_id)"
  by (induction cs) auto

lemma is_already_logged_in_from_iff:
  "is_already_logged_in_from h cs i \<longleftrightarrow> (\<exists>cur \<in> set cs. id_c (h cur) = i)"
  by (induction cs) auto

lemma find_session_from_None: "find_session_from ss session_id = None \<longleftrightarrow> session_id \<notin> set ss"
  by (induction ss) auto

lemma unlink_client_remove1: "unlink_client cs client = remove1 client cs"
  by (induction cs) auto

lemma unlink_session_remove1: "unlink_session ss session_id = remove1 session_id ss"
  by (induction ss) auto

lemma is_valid_user_iff:
  "is_valid_user i password \<longleftrightarrow> (i = ''ken'' \<or> i = ''andy'') \<and> password = ''12345''"
  by (auto simp: is_valid_user_def allowed_users_def)

lemma valid_user_fits: "is_valid_user i password \<Longrightarrow> strncpy_name i = i"
  by (auto simp: is_valid_user_iff strncpy_name_def MAX_NAME_def)

section \<open>Session lifecycle on LEAVE\_SESS and EXIT\<close>

text \<open>
  In the LEAVE\_SESS case the session field is cleared first and
  \<^verbatim>\<open>remove_session_if_empty\<close> is then called on the payload of the frame.  With the
  empty payload that \<^verbatim>\<open>handle_leave_session\<close> of the client sends, the call asks
  whether some client has the empty session; the leaving client itself has, so
  nothing is removed.
\<close>

lemma leave_sess_empty_payload:
  assumes "type msg = LEAVE_SESS" and "data msg = []"
    and "client \<in> set (client_list s)" and "session (heap s client) \<noteq> []"
  shows "process_message s client msg =
           Inr ((set_session s client [])\<lparr>outbox := outbox s @
                  [(sockfd (heap s client),
                    format_message \<lparr>type = LEAVE_SESS, size_m = 12, source = ''server'',
                                    data = ''Left session''\<rparr>)]\<rparr>)"
proof -
  have "session_has_clients (set_session s client []) []"
    using assms(3)
    by (auto simp: session_has_clients_def session_has_clients_from_iff set_session_def)
  then have "remove_session_if_empty (set_session s client []) (data msg) = set_session s client []"
    by (simp add: remove_session_if_empty_def assms(2))
  moreover have "type msg \<noteq> LOGIN" "type msg \<noteq> EXIT" "type msg \<noteq> JOIN" "type msg \<noteq> NEW_SESS"
    using assms(1) by (simp_all add: type_codes)
  ultimately show ?thesis
    using assms
    by (simp add: process_message_def send_fits reply0_def with_size_def MAX_NAME_def
        MAX_DATA_def set_session_def)
qed

text \<open>
  Claim C1, at a concrete run.  ken logs in, creates the session S and, its only
  member, leaves it with the frame the client program sends; andy then logs in and
  joins S.  The session is still in the registry after the leave, and the join is
  acknowledged with JN\_ACK instead of being refused with "Session does not exist".
\<close>

theorem leave_sess_sole_member_session_kept:
  "view_of (run init_server
      [Connect 100 4, Line 100 ''1:5:ken:12345'', Line 100 ''9:1:ken:S'', Line 100 ''8:0:ken:'',
       Connect 200 5, Line 200 ''1:5:andy:12345'', Line 200 ''5:1:andy:S'']) =
   Inr ([(200, \<lparr>sockfd = 5, id_c = ''andy'', session = ''S''\<rparr>),
         (100, \<lparr>sockfd = 4, id_c = ''ken'', session = []\<rparr>)],
        [''S''],
        [(4, ''2:16:server:Login successful\<newline>''),
         (4, ''10:15:server:Session created\<newline>''),
         (4, ''8:12:server:Left session\<newline>''),
         (5, ''2:16:server:Login successful\<newline>''),
         (5, ''6:14:server:Joined session\<newline>'')])"
  by (simp add: eval_defs)

text \<open>
  In the EXIT case the session field is cleared before it is passed to
  \<^verbatim>\<open>remove_session_if_empty\<close>, so the call is made on the empty name, which the
  exiting client itself holds by then: the session list is left as it was.
\<close>

lemma exit_keeps_session_list:
  assumes "type msg = EXIT" and "client \<in> set (client_list s)"
  shows "\<exists>s'. process_message s client msg = Inr s' \<and> session_list s' = session_list s"
proof -
  have a: "session_has_clients (set_session s client []) []"
    using assms(2)
    by (auto simp: session_has_clients_def session_has_clients_from_iff set_session_def)
  have b: "session (heap (set_session s client []) client) = []"
    by (simp add: set_session_def)
  have "type msg \<noteq> LOGIN"
    using assms(1) by (simp add: type_codes)
  then show ?thesis
    using assms(1) a b
    by (simp add: process_message_def send_fits reply0_def MAX_NAME_def MAX_DATA_def
        remove_session_if_empty_def Let_def set_session_def)
qed

text \<open>
  Claim C2, at a concrete connection.  ken logs in, creates the session S and, its
  only member, sends EXIT.  The frame is echoed, the loop ends and the client is
  unlinked, but S is still in the session registry.
\<close>

theorem exit_sole_member_session_kept:
  "view_of (handle_client init_server 100 4
      ''1:5:ken:12345\<newline>9:1:ken:S\<newline>4:0:ken:\<newline>'') =
   Inr ([], [''S''],
        [(4, ''2:16:server:Login successful\<newline>''),
         (4, ''10:15:server:Session created\<newline>''),
         (4, ''4:0:server:\<newline>'')])"
  by (simp add: handle_client_def handle_loop.simps read_line_def eval_defs)

section \<open>NEW\_SESS from a client that is in a session\<close>

text \<open>
  Claim C4.  A NEW\_SESS frame from a client whose current session is not empty
  changes nothing in the heap, the client list or the session list: the state
  after it is the state before with one more line sent, and that line is an
  NS\_ACK whose payload is "Already in a session".
\<close>

theorem new_sess_while_in_session:
  assumes "type msg = NEW_SESS" and "session (heap s client) \<noteq> []"
  shows "process_message s client msg =
           Inr (s\<lparr>outbox := outbox s @
                  [(sockfd (heap s client),
                    format_message \<lparr>type = NS_ACK, size_m = 20, source = ''server'',
                                    data = ''Already in a session''\<rparr>)]\<rparr>)"
proof -
  have "type msg \<noteq> LOGIN" "type msg \<noteq> EXIT" "type msg \<noteq> JOIN"
    using assms(1) by (simp_all add: type_codes)
  then show ?thesis
    using assms
    by (simp add: process_message_def send_fits reply0_def with_size_def MAX_NAME_def MAX_DATA_def)
qed

theorem new_sess_while_in_session_witness:
  "type \<lparr>type = 9, size_m = 1, source = ''ken'', data = ''B''\<rparr> = NEW_SESS \<and>
   session (heap ex_in_session 100) \<noteq> [] \<and>
   view_of (process_message ex_in_session 100 \<lparr>type = 9, size_m = 1, source = ''ken'', data = ''B''\<rparr>) =
     Inr ([(100, \<lparr>sockfd = 4, id_c = ''ken'', session = ''A''\<rparr>)], [''A''],
          [(4, ''10:20:server:Already in a session\<newline>'')])"
proof -
  have t: "type \<lparr>type = 9, size_m = 1, source = ''ken'', data = ''B''\<rparr> = NEW_SESS"
    by (simp add: NEW_SESS_def)
  have n: "session (heap ex_in_session 100) \<noteq> []"
    by (simp add: ex_in_session_def)
  show ?thesis
    using t n new_sess_while_in_session [OF t n]
    by (simp add: ex_in_session_def view_of_def view_def format_message_def dec.simps
        digit_char_def NS_ACK_def colon_def newline_def)
qed

section \<open>What a frame leaves untouched\<close>

lemma send_message_to_client_frame:
  assumes "send_message_to_client s fd m = Inr s'"
  shows "heap s' = heap s" and "client_list s' = client_list s"
    and "session_list s' = session_list s"
  using assms
  by (auto simp: send_message_to_client_def Let_def split: if_splits)

lemma broadcast_from_frame:
  assumes "broadcast_from s cs session_id m sender = Inr s'"
  shows "heap s' = heap s \<and> client_list s' = client_list s \<and> session_list s' = session_list s"
  using assms
proof (induction cs arbitrary: s)
  case Nil
  then show ?case by simp
next
  case (Cons cur cs)
  show ?case
  proof (cases "session (heap s cur) = session_id \<and> id_c (heap s cur) \<noteq> sender")
    case True
    with Cons.prems obtain s1 where
      s1: "send_message_to_client s (sockfd (heap s cur)) m = Inr s1"
      and rest: "broadcast_from s1 cs session_id m sender = Inr s'"
      by (auto split: sum.splits)
    from Cons.IH [OF rest] send_message_to_client_frame [OF s1]
    show ?thesis by simp
  next
    case False
    with Cons.prems have "broadcast_from s cs session_id m sender = Inr s'"
      by auto
    from Cons.IH [OF this] show ?thesis .
  qed
qed

lemma remove_session_if_empty_frame:
  "heap (remove_session_if_empty s n) = heap s"
  "client_list (remove_session_if_empty s n) = client_list s"
  "outbox (remove_session_if_empty s n) = outbox s"
  by (simp_all add: remove_session_if_empty_def)

text \<open>No frame links or unlinks a client.\<close>

lemma process_message_client_list:
  assumes "process_message s client msg = Inr s'"
  shows "client_list s' = client_list s"
  using assms
  unfolding process_message_def Let_def add_session_def broadcast_message_def
    login_act_def login_test_def
  by (auto split: if_splits sum.splits
      dest!: send_message_to_client_frame(2) broadcast_from_frame
      simp: set_id_def set_session_def remove_session_if_empty_frame)

text \<open>
  The identifiers after a frame: a LOGIN that passes both tests stores the source
  of the frame in the client that sent it; nothing else writes an identifier.
\<close>

lemma process_message_ids:
  assumes "process_message s client msg = Inr s'"
  shows "id_c (heap s' p) =
           (if type msg = LOGIN \<and> is_valid_user (source msg) (data msg) \<and>
               \<not> is_already_logged_in s (source msg) \<and> p = client
            then source msg else id_c (heap s p))"
  using assms
  unfolding process_message_def Let_def add_session_def broadcast_message_def
    login_act_def login_test_def
  by (auto split: if_splits sum.splits
      dest!: send_message_to_client_frame(1) broadcast_from_frame
      simp: set_id_def set_session_def remove_session_if_empty_frame valid_user_fits)

section \<open>Uniqueness of identifiers\<close>

text \<open>
  As long as every frame is handled with no other thread in between, two different
  registered clients never come to hold the same non-empty identifier
  (\<open>unique_ids_run\<close>), and a LOGIN for an identifier that a registered client holds
  is refused (\<open>login_refused\<close>).  This is what the test of the LOGIN case is there
  for.
\<close>

lemma unique_ids_init: "unique_ids init_server"
  by (simp add: unique_ids_def init_server_def)

lemma unique_ids_accept_client: "unique_ids s \<Longrightarrow> unique_ids (accept_client s client fd)"
  unfolding unique_ids_def accept_client_def add_client_def
  by simp

lemma unique_ids_remove_client: "unique_ids s \<Longrightarrow> unique_ids (remove_client s client)"
  unfolding unique_ids_def remove_client_def unlink_client_remove1
  by (auto dest: notin_set_remove1)

lemma unique_ids_process_message:
  assumes "unique_ids s" and "process_message s client msg = Inr s'"
  shows "unique_ids s'"
proof (cases "type msg = LOGIN \<and> is_valid_user (source msg) (data msg) \<and>
              \<not> is_already_logged_in s (source msg)")
  case True
  then have fresh: "\<forall>q \<in> set (client_list s). id_c (heap s q) \<noteq> source msg"
    by (simp add: is_already_logged_in_def is_already_logged_in_from_iff)
  have ids: "id_c (heap s' p) = (if p = client then source msg else id_c (heap s p))" for p
    using process_message_ids [OF assms(2), of p] True by simp
  show ?thesis
    unfolding unique_ids_def process_message_client_list [OF assms(2)]
  proof (intro ballI impI)
    fix p q
    assume p: "p \<in> set (client_list s)" and q: "q \<in> set (client_list s)"
      and pq: "p \<noteq> q \<and> id_c (heap s' p) \<noteq> []"
    show "id_c (heap s' p) \<noteq> id_c (heap s' q)"
    proof (cases "p = client")
      case True
      with pq q fresh show ?thesis by (auto simp: ids)
    next
      case False
      note pc = this
      show ?thesis
      proof (cases "q = client")
        case True
        with pc p fresh show ?thesis by (auto simp: ids)
      next
        case False
        with pc pq p q assms(1) show ?thesis
          by (auto simp: ids unique_ids_def)
      qed
    qed
  qed
next
  case False
  then have "id_c (heap s' p) = id_c (heap s p)" for p
    using process_message_ids [OF assms(2), of p] by auto
  with assms(1) show ?thesis
    by (simp add: unique_ids_def process_message_client_list [OF assms(2)])
qed

lemma unique_ids_handle_line:
  assumes "unique_ids s" and "handle_line s client buffer = Inr (s', brk)"
  shows "unique_ids s'"
  using assms
  by (auto simp: handle_line_def split: sum.splits prod.splits if_splits
      dest: unique_ids_process_message)

lemma unique_ids_step:
  assumes "unique_ids s" and "step s e = Inr s'"
  shows "unique_ids s'"
  using assms
  by (cases e)
     (auto simp: unique_ids_accept_client unique_ids_remove_client
       split: sum.splits dest: unique_ids_handle_line)

lemma unique_ids_run:
  assumes "unique_ids s" and "run s evs = Inr s'"
  shows "unique_ids s'"
  using assms
proof (induction evs arbitrary: s)
  case Nil
  then show ?case by simp
next
  case (Cons e evs)
  from Cons.prems(2) obtain s1 where s1: "step s e = Inr s1" and rest: "run s1 evs = Inr s'"
    by (auto split: sum.splits)
  from Cons.IH [OF unique_ids_step [OF Cons.prems(1) s1] rest] show ?case .
qed

lemma login_refused:
  assumes "type msg = LOGIN" and "\<exists>q \<in> set (client_list s). id_c (heap s q) = source msg"
  shows "process_message s client msg =
           Inr (s\<lparr>outbox := outbox s @
                  [(sockfd (heap s client),
                    format_message \<lparr>type = LO_NAK, size_m = 40, source = ''server'',
                                    data = ''Invalid credentials or already logged in''\<rparr>)]\<rparr>)"
  using assms
  by (simp add: process_message_def login_test_def login_act_def is_already_logged_in_def
      is_already_logged_in_from_iff send_fits reply0_def with_size_def MAX_NAME_def MAX_DATA_def)

text \<open>
  The two halves of the LOGIN case, run one after the other by a thread that is not
  inside a LOGIN already, are the handling of the frame as a whole.
\<close>

lemma login_test_act_is_line:
  assumes "passed t client = None"
    and "sscanf_message zero_message (c_str buffer) = Inr (nfields, msg)"
    and "3 \<le> nfields" and "type msg = LOGIN"
  shows "trun t [LoginTest client buffer, LoginAct client] = tstep t (Whole (Line client buffer))"
proof -
  have "(passed t)(client := None) = passed t"
    using assms(1) by auto
  with assms show ?thesis
    by (auto simp: handle_line_def process_message_def split: sum.splits)
qed

text \<open>
  Claim C3 does not hold of the threaded server.  Two connections send LOGIN for
  ken with the right password.  Each thread evaluates the test of the LOGIN case
  before the other has written its identifier; \<^verbatim>\<open>is_already_logged_in\<close> finds no
  client named ken either time.  Both threads then write the identifier and send
  LO\_ACK: two registered clients hold the identifier ken.  With the same two frames
  handled one after the other, the second is answered LO\_NAK and registers
  nothing.
\<close>

theorem simultaneous_login_both_accepted:
  "shared_view_of (trun init_threaded
      [Whole (Connect 100 4), Whole (Connect 200 5),
       LoginTest 100 ''1:5:ken:12345'', LoginTest 200 ''1:5:ken:12345'',
       LoginAct 100, LoginAct 200]) =
     Inr ([(200, \<lparr>sockfd = 5, id_c = ''ken'', session = []\<rparr>),
           (100, \<lparr>sockfd = 4, id_c = ''ken'', session = []\<rparr>)],
          [],
          [(4, ''2:16:server:Login successful\<newline>''),
           (5, ''2:16:server:Login successful\<newline>'')]) \<and>
   shared_view_of (trun init_threaded
      [Whole (Connect 100 4), Whole (Connect 200 5),
       Whole (Line 100 ''1:5:ken:12345''), Whole (Line 200 ''1:5:ken:12345'')]) =
     Inr ([(200, \<lparr>sockfd = 5, id_c = [], session = []\<rparr>),
           (100, \<lparr>sockfd = 4, id_c = ''ken'', session = []\<rparr>)],
          [],
          [(4, ''2:16:server:Login successful\<newline>''),
           (5, ''3:40:server:Invalid credentials or already logged in\<newline>'')])"
  by (simp add: eval_defs init_threaded_def shared_view_of_def)

section \<open>Who receives a MESSAGE\<close>

lemma broadcast_from_sends:
  assumes "length (format_message m) < 2048"
  shows "broadcast_from s cs session_id m sender =
           Inr (s\<lparr>outbox := outbox s @
                  map (\<lambda>cur. (sockfd (heap s cur), format_message m))
                    (filter (\<lambda>cur. session (heap s cur) = session_id \<and>
                                     id_c (heap s cur) \<noteq> sender) cs)\<rparr>)"
proof (induction cs arbitrary: s)
  case Nil
  show ?case by simp
next
  case (Cons cur cs)
  show ?case
  proof (cases "session (heap s cur) = session_id \<and> id_c (heap s cur) \<noteq> sender")
    case True
    let ?s1 = "s\<lparr>outbox := outbox s @ [(sockfd (heap s cur), format_message m)]\<rparr>"
    have "send_message_to_client s (sockfd (heap s cur)) m = Inr ?s1"
      using assms by (simp add: send_message_to_client_def Let_def)
    with True Cons.IH [of ?s1] show ?thesis by simp
  next
    case False
    with Cons.IH [of s] show ?thesis by auto
  qed
qed

text \<open>
  Claim C5.  A MESSAGE frame from the client \<open>x\<close> whose current session is \<open>S\<close> is
  sent, in the order of the client list, to the registered clients whose session
  is \<open>S\<close> and whose identifier differs from that of \<open>x\<close>, and to no one else; nothing
  but the lines sent changes.  \<open>x\<close> is not among the receivers.  When \<open>x\<close> is logged
  in and identifiers are unique, the receivers are all the members of \<open>S\<close> but \<open>x\<close>.
\<close>

theorem message_broadcast:
  assumes "type msg = MESSAGE" and "session (heap s x) = S" and "S \<noteq> []"
    and "length (source msg) < MAX_NAME" and "length (data msg) < MAX_DATA"
  shows "process_message s x msg =
           Inr (s\<lparr>outbox := outbox s @
                  map (\<lambda>cur. (sockfd (heap s cur), format_message msg))
                    (filter (\<lambda>cur. session (heap s cur) = S \<and>
                                     id_c (heap s cur) \<noteq> id_c (heap s x)) (client_list s))\<rparr>) \<and>
         x \<notin> set (filter (\<lambda>cur. session (heap s cur) = S \<and>
                                 id_c (heap s cur) \<noteq> id_c (heap s x)) (client_list s)) \<and>
         (unique_ids s \<and> x \<in> set (client_list s) \<and> id_c (heap s x) \<noteq> [] \<longrightarrow>
            set (filter (\<lambda>cur. session (heap s cur) = S \<and>
                                id_c (heap s cur) \<noteq> id_c (heap s x)) (client_list s)) =
            {cur \<in> set (client_list s). session (heap s cur) = S \<and> cur \<noteq> x})"
proof (intro conjI impI)
  have "type msg \<noteq> LOGIN" "type msg \<noteq> EXIT" "type msg \<noteq> JOIN" "type msg \<noteq> NEW_SESS"
    "type msg \<noteq> LEAVE_SESS"
    using assms(1) by (simp_all add: type_codes)
  then show "process_message s x msg =
           Inr (s\<lparr>outbox := outbox s @
                  map (\<lambda>cur. (sockfd (heap s cur), format_message msg))
                    (filter (\<lambda>cur. session (heap s cur) = S \<and>
                                     id_c (heap s cur) \<noteq> id_c (heap s x)) (client_list s))\<rparr>)"
    using assms(1,2,3) broadcast_from_sends [OF format_fits [OF assms(4,5)]]
    by (simp add: process_message_def broadcast_message_def)
next
  show "x \<notin> set (filter (\<lambda>cur. session (heap s cur) = S \<and>
                                 id_c (heap s cur) \<noteq> id_c (heap s x)) (client_list s))"
    by simp
next
  assume u: "unique_ids s \<and> x \<in> set (client_list s) \<and> id_c (heap s x) \<noteq> []"
  have "id_c (heap s cur) \<noteq> id_c (heap s x)"
    if "cur \<in> set (client_list s)" and "cur \<noteq> x" for cur
    using u that unfolding unique_ids_def by metis
  then show "set (filter (\<lambda>cur. session (heap s cur) = S \<and>
                                id_c (heap s cur) \<noteq> id_c (heap s x)) (client_list s)) =
            {cur \<in> set (client_list s). session (heap s cur) = S \<and> cur \<noteq> x}"
    by auto
qed

theorem message_broadcast_witness:
  "type \<lparr>type = 11, size_m = 5, source = ''ken'', data = ''hello''\<rparr> = MESSAGE \<and>
   session (heap ex_team 100) = ''team'' \<and> ''team'' \<noteq> [] \<and>
   length (source \<lparr>type = 11, size_m = 5, source = ''ken'', data = ''hello''\<rparr>) < MAX_NAME \<and>
   length (data \<lparr>type = 11, size_m = 5, source = ''ken'', data = ''hello''\<rparr>) < MAX_DATA \<and>
   unique_ids ex_team \<and> 100 \<in> set (client_list ex_team) \<and> id_c (heap ex_team 100) \<noteq> [] \<and>
   process_message ex_team 100 \<lparr>type = 11, size_m = 5, source = ''ken'', data = ''hello''\<rparr> =
     Inr (ex_team\<lparr>outbox := [(6, ''11:5:ken:hello\<newline>''), (5, ''11:5:ken:hello\<newline>'')]\<rparr>) \<and>
   {cur \<in> set (client_list ex_team). session (heap ex_team cur) = ''team'' \<and> cur \<noteq> 100} = {200, 300}"
proof -
  let ?m = "\<lparr>type = 11, size_m = 5, source = ''ken'', data = ''hello''\<rparr>"
  have t: "type ?m = MESSAGE" by (simp add: MESSAGE_def)
  have se: "session (heap ex_team 100) = ''team''" by (simp add: ex_team_def)
  have ne: "''team'' \<noteq> []" by simp
  have l1: "length (source ?m) < MAX_NAME" by (simp add: MAX_NAME_def)
  have l2: "length (data ?m) < MAX_DATA" by (simp add: MAX_DATA_def)
  have u: "unique_ids ex_team" by (simp add: unique_ids_def ex_team_def)
  have m: "100 \<in> set (client_list ex_team)" by (simp add: ex_team_def)
  have i: "id_c (heap ex_team 100) \<noteq> []" by (simp add: ex_team_def)
  note inst = message_broadcast [OF t se ne l1 l2]
  from inst have p: "process_message ex_team 100 ?m =
     Inr (ex_team\<lparr>outbox := [(6, ''11:5:ken:hello\<newline>''), (5, ''11:5:ken:hello\<newline>'')]\<rparr>)"
    by (simp add: ex_team_def format_message_def dec.simps digit_char_def colon_def newline_def)
  have r: "{cur \<in> set (client_list ex_team). session (heap ex_team cur) = ''team'' \<and> cur \<noteq> 100} = {200, 300}"
    by (auto simp: ex_team_def)
  from t se ne l1 l2 u m i p r show ?thesis by blast
qed

section \<open>Wire codec: decoding what was encoded\<close>

lemma isdigit_not_other:
  assumes "isdigit c"
  shows "\<not> isspace c" and "c \<noteq> CHR ''-''" and "c \<noteq> CHR ''+''" and "c \<noteq> colon" and "c \<noteq> NUL"
    and "c \<noteq> newline"
  using assms
  by (auto simp: isdigit_def isspace_def colon_def NUL_def newline_def)

lemma takeWhile_all: "\<forall>c \<in> set xs. P c \<Longrightarrow> \<not> P y \<Longrightarrow> takeWhile P (xs @ y # ys) = xs"
  by (induction xs) auto

lemma dropWhile_all: "\<forall>c \<in> set xs. P c \<Longrightarrow> \<not> P y \<Longrightarrow> dropWhile P (xs @ y # ys) = y # ys"
  by (induction xs) auto

lemma strtoul_u32_unat: "strtoul_u32 False (unat (w :: u32)) = w"
proof -
  have "unat w < 2 ^ 32" using unsigned_less [of w] by simp
  then have "\<not> (2 :: nat) ^ 64 \<le> unat w" by simp
  then show ?thesis by (simp add: strtoul_u32_def)
qed

lemma scan_u_dec:
  assumes "\<not> isdigit y"
  shows "scan_u (dec n @ y # ys) = Some (strtoul_u32 False n, y # ys)"
proof -
  obtain d ds where dec: "dec n = d # ds"
    using dec_nonempty [of n] by (cases "dec n") auto
  have digits: "\<forall>c \<in> set (dec n). isdigit c"
    by (simp add: dec_digits)
  then have d: "isdigit d" by (simp add: dec)
  have skip: "dropWhile isspace (dec n @ y # ys) = dec n @ y # ys"
    using isdigit_not_other(1) [OF d] by (simp add: dec)
  have nosign: "hd (dec n @ y # ys) \<noteq> CHR ''-''" "hd (dec n @ y # ys) \<noteq> CHR ''+''"
    using isdigit_not_other(2,3) [OF d] by (simp_all add: dec)
  show ?thesis
    unfolding scan_u_def Let_def skip
    using nosign takeWhile_all [OF digits assms] dropWhile_all [OF digits assms]
      dec_nonempty [of n] digits_value_dec [of n]
    by simp
qed

lemma scan_until_stop:
  assumes "xs \<noteq> []" and "x \<notin> set xs"
  shows "scan_until x (xs @ x # ys) = Some (xs, x # ys)"
proof -
  have "\<forall>c \<in> set xs. c \<noteq> x" using assms(2) by auto
  then have "takeWhile (\<lambda>c. c \<noteq> x) (xs @ x # ys) = xs"
    and "dropWhile (\<lambda>c. c \<noteq> x) (xs @ x # ys) = x # ys"
    by (simp_all add: takeWhile_all dropWhile_all)
  with assms(1) show ?thesis by (simp add: scan_until_def)
qed

lemma scan_until_end:
  assumes "xs \<noteq> []" and "x \<notin> set xs"
  shows "scan_until x xs = Some (xs, [])"
proof -
  have "\<forall>c \<in> set xs. c \<noteq> x" using assms(2) by auto
  then have tw: "takeWhile (\<lambda>c. c \<noteq> x) xs = xs" and dw: "dropWhile (\<lambda>c. c \<noteq> x) xs = []"
    by simp_all
  show ?thesis
    unfolding scan_until_def Let_def tw dw using assms(1) by simp
qed

lemma c_str_id: "NUL \<notin> set xs \<Longrightarrow> c_str xs = xs"
  by (auto simp: c_str_def)

lemma read_line_from_line:
  assumes "newline \<notin> set xs" and "total_n + length xs < max_len - 1"
  shows "read_line_from max_len total_n buffer (xs @ newline # rest) =
           (int (total_n + length xs), buffer @ xs, rest)"
  using assms
  by (induction xs arbitrary: total_n buffer) auto

text \<open>The line of a message without its newline.\<close>

lemma format_message_line:
  "format_message m =
     (dec (unat (type m)) @ colon # dec (unat (size_m m)) @ colon # source m @ colon # data m) @
     [newline]"
  by (simp add: format_message_def)

lemma sscanf_message_format:
  assumes "source m \<noteq> []" and "colon \<notin> set (source m)" and "newline \<notin> set (data m)"
    and "length (source m) < MAX_NAME" and "length (data m) < MAX_DATA"
  shows "sscanf_message msg0
           (dec (unat (type m)) @ colon # dec (unat (size_m m)) @ colon # source m @ colon # data m) =
         Inr (if data m = [] then (3, m\<lparr>data := data msg0\<rparr>) else (4, m))"
proof -
  have nd: "\<not> isdigit colon" by (simp add: isdigit_def colon_def)
  have u1: "scan_u (dec (unat (type m)) @ colon # dec (unat (size_m m)) @ colon # source m @ colon # data m) =
      Some (type m, colon # dec (unat (size_m m)) @ colon # source m @ colon # data m)"
    using scan_u_dec [OF nd] by (simp add: strtoul_u32_unat)
  have u2: "scan_u (dec (unat (size_m m)) @ colon # source m @ colon # data m) =
      Some (size_m m, colon # source m @ colon # data m)"
    using scan_u_dec [OF nd] by (simp add: strtoul_u32_unat)
  have u3: "scan_until colon (source m @ colon # data m) = Some (source m, colon # data m)"
    using assms(1,2) by (rule scan_until_stop)
  show ?thesis
  proof (cases "data m = []")
    case True
    then have "scan_until newline (data m) = None" by (simp add: scan_until_def)
    with True u1 u2 u3 assms(4) show ?thesis
      by (simp add: sscanf_message_def scan_colon_def)
  next
    case False
    then have "scan_until newline (data m) = Some (data m, [])"
      using assms(3) by (intro scan_until_end)
    with False u1 u2 u3 assms(4,5) show ?thesis
      by (simp add: sscanf_message_def scan_colon_def)
  qed
qed

lemma line_chars:
  assumes "c \<in> set (dec (unat (type m)) @ colon # dec (unat (size_m m)) @ colon # source m @ colon # data m)"
    and "x \<notin> set (source m)" and "x \<notin> set (data m)" and "x \<noteq> colon" and "\<not> isdigit x"
  shows "c \<noteq> x"
  using assms by (auto dest: dec_digits)

lemma sscanf_message_line:
  assumes "source m \<noteq> []" and "colon \<notin> set (source m)" and "newline \<notin> set (data m)"
    and "NUL \<notin> set (source m)" and "NUL \<notin> set (data m)"
    and "length (source m) < MAX_NAME" and "length (data m) < MAX_DATA"
  shows "sscanf_message msg0 (c_str (butlast (format_message m))) =
           Inr (if data m = [] then (3, m\<lparr>data := data msg0\<rparr>) else (4, m))"
proof -
  let ?line = "dec (unat (type m)) @ colon # dec (unat (size_m m)) @ colon # source m @ colon # data m"
  have bl: "butlast (format_message m) = ?line"
    unfolding format_message_line by (rule butlast_snoc)
  have "NUL \<notin> set ?line"
    using line_chars [of NUL m NUL] assms(4,5)
    by (auto simp: isdigit_def NUL_def colon_def)
  then have "c_str ?line = ?line"
    by (rule c_str_id)
  with sscanf_message_format [OF assms(1,2,3,6,7), of msg0] show ?thesis
    unfolding bl by simp
qed

text \<open>
  Claim C6.  For a message as \<^verbatim>\<open>struct message\<close> can hold it (source and payload
  are C strings that fit their arrays), whose source is not empty and has no colon
  and no newline and whose payload has no newline: \<^verbatim>\<open>send_message_to_client\<close> sends
  the line \<open>type:size:source:payload\<close> and a newline; \<^verbatim>\<open>read_line\<close> gives that line
  back, of positive length, and leaves what follows the newline; and \<^verbatim>\<open>sscanf\<close> on
  it assigns the original type, size, source and payload (three fields when the
  payload is empty, the payload then staying cleared; four otherwise).  With a
  payload that is not empty the same holds from any earlier content of the message,
  as in the receive loop of the client, which does not clear it.
\<close>

theorem wire_round_trip:
  assumes "source m \<noteq> []" and "colon \<notin> set (source m)" and "newline \<notin> set (source m)"
    and "newline \<notin> set (data m)" and "NUL \<notin> set (source m)" and "NUL \<notin> set (data m)"
    and "length (source m) < MAX_NAME" and "length (data m) < MAX_DATA"
  shows "send_message_to_client s fd m = Inr (s\<lparr>outbox := outbox s @ [(fd, format_message m)]\<rparr>) \<and>
         format_message m =
           dec (unat (type m)) @ [colon] @ dec (unat (size_m m)) @ [colon] @
           source m @ [colon] @ data m @ [newline] \<and>
         read_line (format_message m @ rest) 2048 =
           (int (length (butlast (format_message m))), butlast (format_message m), rest) \<and>
         0 < length (butlast (format_message m)) \<and>
         sscanf_message zero_message (c_str (butlast (format_message m))) =
           Inr (if data m = [] then 3 else 4, m) \<and>
         (data m \<noteq> [] \<longrightarrow>
            sscanf_message stale (c_str (butlast (format_message m))) = Inr (4, m))"
proof -
  let ?line = "dec (unat (type m)) @ colon # dec (unat (size_m m)) @ colon # source m @ colon # data m"
  have fm: "format_message m = ?line @ [newline]"
    by (rule format_message_line)
  have bl: "butlast (format_message m) = ?line"
    unfolding fm by (rule butlast_snoc)
  have "length (format_message m) < 2048"
    using assms(7,8) by (rule format_fits)
  then have len: "0 + length ?line < 2048 - 1"
    by (simp add: fm)
  have nonl: "newline \<notin> set ?line"
    using line_chars [of newline m newline] assms(3,4)
    by (auto simp: isdigit_def newline_def colon_def)
  have rd: "read_line (format_message m @ rest) 2048 = (int (length ?line), ?line, rest)"
    using read_line_from_line [OF nonl len, of "[]" rest]
    by (simp add: read_line_def fm)
  have pos: "0 < length ?line"
    by simp
  have sc: "sscanf_message zero_message (c_str ?line) = Inr (if data m = [] then 3 else 4, m)"
    using sscanf_message_line [OF assms(1,2,4,5,6,7,8), of zero_message]
    by (simp add: bl zero_message_def)
  have sc': "sscanf_message stale (c_str ?line) = Inr (4, m)" if "data m \<noteq> []"
    using sscanf_message_line [OF assms(1,2,4,5,6,7,8), of stale] that
    by (simp add: bl)
  from send_fits [OF assms(7,8)] rd pos sc sc' show ?thesis
    unfolding bl by (simp add: format_message_def)
qed

theorem wire_round_trip_witness:
  "source \<lparr>type = 11, size_m = 9, source = ''ken'', data = ''hi: there''\<rparr> \<noteq> [] \<and>
   data \<lparr>type = 11, size_m = 9, source = ''ken'', data = ''hi: there''\<rparr> \<noteq> [] \<and>
   sscanf_message \<lparr>type = 10, size_m = 15, source = ''server'', data = ''Session created''\<rparr>
       (c_str ''11:9:ken:hi: there'') =
     Inr (4, \<lparr>type = 11, size_m = 9, source = ''ken'', data = ''hi: there''\<rparr>) \<and>
   colon \<notin> set ''ken'' \<and> newline \<notin> set ''ken'' \<and> newline \<notin> set ''hi: there'' \<and>
   NUL \<notin> set ''ken'' \<and> NUL \<notin> set ''hi: there'' \<and>
   length ''ken'' < MAX_NAME \<and> length ''hi: there'' < MAX_DATA \<and>
   format_message \<lparr>type = 11, size_m = 9, source = ''ken'', data = ''hi: there''\<rparr> =
     ''11:9:ken:hi: there\<newline>'' \<and>
   read_line (''11:9:ken:hi: there\<newline>'' @ ''12:0:ken:\<newline>'') 2048 =
     (18, ''11:9:ken:hi: there'', ''12:0:ken:\<newline>'') \<and>
   sscanf_message zero_message (c_str ''11:9:ken:hi: there'') =
     Inr (4, \<lparr>type = 11, size_m = 9, source = ''ken'', data = ''hi: there''\<rparr>)"
proof -
  let ?m = "\<lparr>type = 11, size_m = 9, source = ''ken'', data = ''hi: there''\<rparr>"
  have h: "source ?m \<noteq> []" "colon \<notin> set (source ?m)" "newline \<notin> set (source ?m)"
    "newline \<notin> set (data ?m)" "NUL \<notin> set (source ?m)" "NUL \<notin> set (data ?m)"
    "length (source ?m) < MAX_NAME" "length (data ?m) < MAX_DATA"
    by (simp_all add: colon_def newline_def NUL_def MAX_NAME_def MAX_DATA_def)
  have f: "format_message ?m = ''11:9:ken:hi: there\<newline>''"
    by (simp add: format_message_def dec.simps digit_char_def colon_def newline_def)
  from wire_round_trip [OF h, of init_server 4 "''12:0:ken:\<newline>''"
      "\<lparr>type = 10, size_m = 15, source = ''server'', data = ''Session created''\<rparr>"] h
  show ?thesis
    unfolding f
    by (simp add: colon_def newline_def NUL_def MAX_NAME_def MAX_DATA_def dec.simps digit_char_def)
qed

section \<open>Malformed frames\<close>

lemma count_list_dropWhile: "count_list (dropWhile P xs) c \<le> count_list xs c"
  by (induction xs) auto

lemma count_list_tl: "count_list (tl xs) c \<le> count_list xs c"
  by (cases xs) auto

lemma scan_u_count:
  assumes "scan_u s = Some (v, r)"
  shows "count_list r colon \<le> count_list s colon"
proof -
  let ?s1 = "dropWhile isspace s"
  let ?s2 = "if ?s1 \<noteq> [] \<and> (hd ?s1 = CHR ''-'' \<or> hd ?s1 = CHR ''+'') then tl ?s1 else ?s1"
  from assms have r: "r = dropWhile isdigit ?s2"
    by (auto simp: scan_u_def Let_def split: if_splits)
  have "count_list r colon \<le> count_list ?s2 colon"
    unfolding r by (rule count_list_dropWhile)
  also have "\<dots> \<le> count_list ?s1 colon"
    by (simp add: count_list_tl)
  also have "\<dots> \<le> count_list s colon"
    by (rule count_list_dropWhile)
  finally show ?thesis .
qed

lemma scan_colon_count:
  assumes "scan_colon s = Some r"
  shows "count_list s colon = Suc (count_list r colon)"
  using assms by (auto simp: scan_colon_def split: list.splits if_splits)

text \<open>A line with fewer than two colons never gets to its third field.\<close>

lemma sscanf_message_few_colons:
  assumes "count_list buffer colon < 2"
  shows "\<exists>k msg. sscanf_message msg0 buffer = Inr (k, msg) \<and> k < 3"
proof (cases "scan_u buffer")
  case None
  then show ?thesis by (simp add: sscanf_message_def)
next
  case (Some a)
  then obtain t r1 where u1: "scan_u buffer = Some (t, r1)" by (cases a) auto
  show ?thesis
  proof (cases "scan_colon r1")
    case None
    with u1 show ?thesis by (simp add: sscanf_message_def)
  next
    case (Some r1')
    note c1 = this
    show ?thesis
    proof (cases "scan_u r1'")
      case None
      with u1 c1 show ?thesis by (simp add: sscanf_message_def)
    next
      case (Some b)
      then obtain sz r2 where u2: "scan_u r1' = Some (sz, r2)" by (cases b) auto
      have "scan_colon r2 = None"
      proof (rule ccontr)
        assume "scan_colon r2 \<noteq> None"
        then obtain r2' where c2: "scan_colon r2 = Some r2'" by auto
        from scan_u_count [OF u1] scan_colon_count [OF c1] scan_u_count [OF u2]
          scan_colon_count [OF c2] assms
        show False by simp
      qed
      with u1 c1 u2 show ?thesis by (simp add: sscanf_message_def)
    qed
  qed
qed

lemma handle_loop_step:
  assumes "read_line input 2048 = (n, buffer, rest)" and "0 < n"
    and "handle_line s client buffer = Inr (s', False)"
  shows "handle_loop s client input = handle_loop s' client rest"
  using assms by (subst handle_loop.simps) simp

text \<open>
  \<^verbatim>\<open>read_line\<close> leaves its loop after \<open>max_len - 1\<close> bytes without looking for the
  newline: a line of 2047 bytes is returned whole and its newline stays on the
  socket, so that the next call returns 0; of a longer line the tail is returned
  by the next call as a line of its own.
\<close>

lemma read_line_from_full:
  assumes "newline \<notin> set xs" and "total_n + length xs = max_len - 1"
  shows "read_line_from max_len total_n buffer (xs @ rest) =
           (int (max_len - 1), buffer @ xs, rest)"
  using assms
proof (induction xs arbitrary: total_n buffer)
  case Nil
  then show ?case by (cases rest) auto
next
  case (Cons x xs)
  then show ?case by auto
qed

lemma full_line_ends_loop:
  assumes "length line = 2047" and "newline \<notin> set line"
    and "count_list (c_str line) colon < 2"
  shows "handle_loop s client (line @ newline # rest) = Inr (s, rest)"
proof -
  have r1: "read_line (line @ newline # rest) 2048 = (2047, line, newline # rest)"
    using read_line_from_full [OF assms(2), of 0 2048 "[]" "newline # rest"] assms(1)
    by (simp add: read_line_def)
  obtain k msg where "sscanf_message zero_message (c_str line) = Inr (k, msg)" and "k < 3"
    using sscanf_message_few_colons [OF assms(3)] by blast
  then have hl: "handle_line s client line = Inr (s, False)"
    by (simp add: handle_line_def)
  have r2: "read_line (newline # rest) 2048 = (0, [], rest)"
    by (simp add: read_line_def)
  have "handle_loop s client (line @ newline # rest) = handle_loop s client (newline # rest)"
    by (rule handle_loop_step [OF r1 _ hl]) simp
  also have "\<dots> = Inr (s, rest)"
    using r2 by (subst handle_loop.simps) simp
  finally show ?thesis .
qed

text \<open>
  Claim C7, as the code has it.  A line of at least one byte and fewer than 2047
  whose parse assigns fewer than three fields (as every line with fewer than two
  colons does) is read whole with its newline and dropped: the state is what it
  was, no \<^verbatim>\<open>break\<close> is taken, and the loop goes on with the bytes that follow the
  newline of the line, the next frame.
\<close>

theorem malformed_frame_discarded:
  assumes "line \<noteq> []" and "length line < 2047" and "newline \<notin> set line"
    and "(\<exists>k msg. sscanf_message zero_message (c_str line) = Inr (k, msg) \<and> k < 3) \<or>
         count_list (c_str line) colon < 2"
  shows "read_line (line @ newline # rest) 2048 = (int (length line), line, rest) \<and>
         handle_line s client line = Inr (s, False) \<and>
         handle_loop s client (line @ newline # rest) = handle_loop s client rest"
proof -
  have rd: "read_line (line @ newline # rest) 2048 = (int (length line), line, rest)"
    using read_line_from_line [OF assms(3), of 0 2048 "[]" rest] assms(2)
    by (simp add: read_line_def)
  from assms(4) obtain k msg where
    "sscanf_message zero_message (c_str line) = Inr (k, msg)" and "k < 3"
    using sscanf_message_few_colons [of "c_str line" zero_message] by blast
  then have hl: "handle_line s client line = Inr (s, False)"
    by (simp add: handle_line_def)
  have "handle_loop s client (line @ newline # rest) = handle_loop s client rest"
    using assms(1) by (intro handle_loop_step [OF rd _ hl]) simp
  with rd hl show ?thesis by simp
qed

theorem malformed_frame_discarded_witness:
  "''hello:there'' \<noteq> [] \<and> length ''hello:there'' < 2047 \<and> newline \<notin> set ''hello:there'' \<and>
   count_list (c_str ''hello:there'') colon < 2 \<and>
   read_line ''hello:there\<newline>12:0:ken:\<newline>'' 2048 = (11, ''hello:there'', ''12:0:ken:\<newline>'') \<and>
   handle_line ex_ken_and_guest 100 ''hello:there'' = Inr (ex_ken_and_guest, False) \<and>
   handle_loop ex_ken_and_guest 100 ''hello:there\<newline>12:0:ken:\<newline>'' =
     handle_loop ex_ken_and_guest 100 ''12:0:ken:\<newline>''"
proof -
  have a: "''hello:there'' \<noteq> []" by simp
  have b: "length ''hello:there'' < 2047" by simp
  have n: "newline \<notin> set ''hello:there''" by (simp add: newline_def)
  have c: "count_list (c_str ''hello:there'') colon < 2"
    by (simp add: c_str_def NUL_def colon_def)
  from malformed_frame_discarded [OF a b n disjI2 [OF c], of "''12:0:ken:\<newline>''"
      ex_ken_and_guest 100] a b n c
  show ?thesis by (simp add: newline_def)
qed

text \<open>
  Claim C7 as it is written covers every received line, and an empty line is not
  dropped in this way.  \<^verbatim>\<open>read_line\<close> returns the number of
  bytes before the newline, 0 for an empty line, and the loop of \<^verbatim>\<open>handle_client\<close>
  runs only while that number is positive: the line, of which \<^verbatim>\<open>sscanf\<close> would
  assign no field, ends the loop, the QUERY frame behind it is never read, and the
  client is unlinked.  After a malformed line of one byte the same QUERY is
  answered.  (A line of 2047 bytes or more is not dropped as a whole either, see
  \<open>full_line_ends_loop\<close>.)
\<close>

theorem empty_line_ends_connection:
  "sscanf_message zero_message (c_str []) = Inr (0, zero_message) \<and>
   read_line ''\<newline>12:0:ken:\<newline>'' 2048 = (0, [], ''12:0:ken:\<newline>'') \<and>
   handle_loop ex_ken_and_guest 100 ''\<newline>12:0:ken:\<newline>'' =
     Inr (ex_ken_and_guest, ''12:0:ken:\<newline>'') \<and>
   view_of (handle_client init_server 100 4 ''\<newline>12:0:ken:\<newline>'') = Inr ([], [], []) \<and>
   view_of (handle_client init_server 100 4 ''x\<newline>12:0:ken:\<newline>'') =
     Inr ([], [], [(4, ''13:38:server:Clients:  (session: None),  Sessions: \<newline>'')])"
  by (simp add: handle_client_def handle_loop.simps read_line_def eval_defs)

section \<open>NS\_ACK: one type, two meanings\<close>

lemma find_session_None: "find_session s n = None \<longleftrightarrow> n \<notin> set (session_list s)"
  by (simp add: find_session_def find_session_from_None)

text \<open>
  The server side.  The reply to NEW\_SESS always has the type NS\_ACK.  Its
  payload is "Session created" in the one case where the client has no current
  session and the name is not registered: the name, cut to \<open>MAX_NAME\<close> bytes, is then
  put in front of the session list and made the current session of the client.
  In the two other cases the payload is another text and nothing but the lines
  sent changes.
\<close>

lemma new_sess_reply:
  assumes "type msg = NEW_SESS"
  shows "process_message s client msg =
           (if session (heap s client) \<noteq> [] then
              Inr (s\<lparr>outbox := outbox s @
                     [(sockfd (heap s client),
                       format_message \<lparr>type = NS_ACK, size_m = 20, source = ''server'',
                                       data = ''Already in a session''\<rparr>)]\<rparr>)
            else if find_session s (data msg) \<noteq> None then
              Inr (s\<lparr>outbox := outbox s @
                     [(sockfd (heap s client),
                       format_message \<lparr>type = NS_ACK, size_m = 22, source = ''server'',
                                       data = ''Session already exists''\<rparr>)]\<rparr>)
            else
              Inr ((set_session (s\<lparr>session_list := take MAX_NAME (data msg) # session_list s\<rparr>)
                      client (take MAX_NAME (data msg)))
                   \<lparr>outbox := outbox s @
                      [(sockfd (heap s client),
                        format_message \<lparr>type = NS_ACK, size_m = 15, source = ''server'',
                                        data = ''Session created''\<rparr>)]\<rparr>))"
proof -
  have ne: "type msg \<noteq> LOGIN" "type msg \<noteq> EXIT" "type msg \<noteq> JOIN"
    using assms by (simp_all add: type_codes)
  show ?thesis
    using ne assms
    by (simp add: process_message_def add_session_def strncpy_name_def send_fits reply0_def
        with_size_def set_session_def MAX_NAME_def MAX_DATA_def)
qed

text \<open>
  The client side, on the message as parsed: on an NS\_ACK the \<^verbatim>\<open>switch\<close> copies the
  pending session to the current session exactly when \<^verbatim>\<open>msg.data\<close> is
  "Session created", and clears the pending session in both cases.
\<close>

lemma ns_ack_dispatch:
  assumes "type ack = NS_ACK"
  shows "receive_dispatch cs ack =
           (if data ack = ''Session created''
            then cs\<lparr>current_session := take MAX_NAME (pending_session cs), pending_session := [],
                    console := console cs @
                      [''Current session: '' @ take MAX_NAME (pending_session cs)]\<rparr>
            else cs\<lparr>pending_session := [],
                    console := console cs @ [''[warning]: '' @ data ack]\<rparr>)"
proof -
  have "type ack \<noteq> LO_NAK" "type ack \<noteq> JN_ACK" "type ack \<noteq> JN_NAK"
    using assms by (simp_all add: type_codes)
  then show ?thesis
    using assms by (simp add: receive_dispatch_def strncpy_name_def)
qed

text \<open>
  The client side, on the line: a frame with a payload is handed to the \<^verbatim>\<open>switch\<close>
  as it was sent; a frame with an empty payload is handed on with the payload that
  \<^verbatim>\<open>msg\<close> held before.
\<close>

lemma receive_line_format:
  assumes "source m \<noteq> []" and "colon \<notin> set (source m)" and "newline \<notin> set (data m)"
    and "NUL \<notin> set (source m)" and "NUL \<notin> set (data m)"
    and "length (source m) < MAX_NAME" and "length (data m) < MAX_DATA"
  shows "receive_line cs stale (butlast (format_message m)) =
           (if data m = []
            then Inr (receive_dispatch cs (m\<lparr>data := data stale\<rparr>), m\<lparr>data := data stale\<rparr>)
            else Inr (receive_dispatch cs m, m))"
  using sscanf_message_line [OF assms, of stale]
  by (simp add: receive_line_def)

text \<open>
  Claim C8 holds of the server (\<open>new_sess_reply\<close>) and of the client for every
  NS\_ACK frame that has a payload (\<open>ns_ack_dispatch\<close>, \<open>receive_line_format\<close>).
  It does not hold of the client for an NS\_ACK frame with an empty payload: the
  loop of the client does not clear \<^verbatim>\<open>msg\<close>, the comparison is made with the
  payload of the frame before, and after a "Session created" the client copies the
  pending session to the current session again.  Here the second frame, whose
  payload is not "Session created", makes the client give up the session it has
  just entered; had the user asked for a session T in between, the client would
  take itself to be in T.  With a payload, type NS\_ACK and another text leave the
  current session as it is.
\<close>

theorem stale_payload_promotes:
  "receive_handler ex_pending zero_message
      ''10:15:server:Session created\<newline>10:0:server:\<newline>'' =
     Inr \<lparr>loggedIn = False, current_session = [], pending_session = [],
          console = [''Current session: S'', ''Current session: '',
                     ''Disconnected from server.'']\<rparr> \<and>
   receive_line \<lparr>loggedIn = True, current_session = [], pending_session = ''T'', console = []\<rparr>
      \<lparr>type = 10, size_m = 15, source = ''server'', data = ''Session created''\<rparr>
      ''10:0:server:'' =
     Inr (\<lparr>loggedIn = True, current_session = ''T'', pending_session = [],
           console = [''Current session: T'']\<rparr>,
          \<lparr>type = 10, size_m = 0, source = ''server'', data = ''Session created''\<rparr>) \<and>
   receive_handler ex_pending zero_message
      ''10:15:server:Session created\<newline>10:22:server:Session already exists\<newline>'' =
     Inr \<lparr>loggedIn = False, current_session = ''S'', pending_session = [],
          console = [''Current session: S'', ''[warning]: Session already exists'',
                     ''Disconnected from server.'']\<rparr>"
  by (simp add: receive_handler.simps receive_line_def receive_dispatch_def read_line_def
      ex_pending_def sscanf_message_def scan_u_def scan_colon_def scan_until_def isspace_def
      isdigit_def digit_val_def digits_value_def strtoul_u32_def colon_def newline_def NUL_def
      zero_message_def MAX_NAME_def MAX_DATA_def c_str_def type_codes strncpy_name_def Let_def)

section \<open>Who is in the client registry\<close>

lemma handle_line_client_list:
  assumes "handle_line s client buffer = Inr (s', brk)"
  shows "client_list s' = client_list s"
  using assms
  by (auto simp: handle_line_def split: sum.splits prod.splits if_splits
      dest: process_message_client_list)

lemma handle_loop_client_list:
  assumes "handle_loop s client input = Inr (s', rest)"
  shows "client_list s' = client_list s"
  using assms
proof (induction s client input rule: handle_loop.induct)
  case (1 s client input)
  obtain n buffer rest0 where rd: "read_line input 2048 = (n, buffer, rest0)"
    by (cases "read_line input 2048") auto
  show ?case
  proof (cases "0 < n")
    case False
    with rd "1.prems" show ?thesis
      by (subst (asm) handle_loop.simps) simp
  next
    case True
    with rd "1.prems" obtain s1 brk where
      hl: "handle_line s client buffer = Inr (s1, brk)"
      and k: "if brk then s' = s1 else handle_loop s1 client rest0 = Inr (s', rest)"
      by (subst (asm) handle_loop.simps) (auto split: sum.splits prod.splits if_splits)
    show ?thesis
    proof (cases brk)
      case True
      with k hl show ?thesis by (simp add: handle_line_client_list)
    next
      case False
      with k have "handle_loop s1 client rest0 = Inr (s', rest)" by simp
      from "1.IH" [OF rd [symmetric] refl \<open>0 < n\<close> hl refl False this]
        handle_line_client_list [OF hl]
      show ?thesis by simp
    qed
  qed
qed

lemma handle_client_client_list:
  assumes "handle_client s client fd input = Inr s'"
  shows "client_list s' = client_list s"
proof -
  from assms obtain s1 rest where
    lp: "handle_loop (accept_client s client fd) client input = Inr (s1, rest)"
    and s': "s' = remove_client s1 client"
    by (auto simp: handle_client_def split: sum.splits prod.splits)
  from handle_loop_client_list [OF lp]
  have "client_list s1 = client # client_list s"
    by (simp add: accept_client_def add_client_def)
  with s' show ?thesis by (simp add: remove_client_def)
qed

lemma query_reply:
  assumes "type msg = QUERY" and "length (query_list s) < MAX_DATA"
  shows "process_message s client msg =
           Inr (s\<lparr>outbox := outbox s @
                  [(sockfd (heap s client),
                    format_message \<lparr>type = QU_ACK, size_m = of_nat (length (query_list s)),
                                    source = ''server'', data = query_list s\<rparr>)]\<rparr>)"
proof -
  have "type msg \<noteq> LOGIN" "type msg \<noteq> EXIT" "type msg \<noteq> JOIN" "type msg \<noteq> NEW_SESS"
    "type msg \<noteq> LEAVE_SESS" "type msg \<noteq> MESSAGE"
    using assms(1) by (simp_all add: type_codes)
  then show ?thesis
    using assms
    by (simp add: process_message_def send_fits reply0_def with_size_def MAX_NAME_def Let_def)
qed

text \<open>
  Claim C9 does not hold of the code: \<^verbatim>\<open>handle_client\<close> links the client before it
  reads a frame.  A connection that sends QUERY without a LOGIN, and one whose LOGIN
  was refused, are in the client list and are listed, with the empty identifier, in
  the QU\_ACK they get.
\<close>

theorem query_lists_client_never_logged_in:
  "view_of (run init_server [Connect 100 4, Line 100 ''12:0:x:'']) =
     Inr ([(100, \<lparr>sockfd = 4, id_c = [], session = []\<rparr>)], [],
          [(4, ''13:38:server:Clients:  (session: None),  Sessions: \<newline>'')]) \<and>
   view_of (run init_server [Connect 100 4, Line 100 ''1:3:bob:pwd'', Line 100 ''12:0:bob:'']) =
     Inr ([(100, \<lparr>sockfd = 4, id_c = [], session = []\<rparr>)], [],
          [(4, ''3:40:server:Invalid credentials or already logged in\<newline>''),
           (4, ''13:38:server:Clients:  (session: None),  Sessions: \<newline>'')])"
  by (simp add: eval_defs)

text \<open>
  Claim C9, as the code has it.  A client is linked when its connection is
  accepted, with the empty identifier; no frame links or unlinks a client, and
  only a LOGIN that passes both tests writes an identifier; when the handler of a
  connection ends, the client list is what it was before the connection.  The
  QU\_ACK reply lists the clients that are linked when the QUERY is processed, one
  entry for each, whatever their identifiers.
\<close>

theorem registry_membership:
  "client_list (accept_client s client fd) = client # client_list s \<and>
   id_c (heap (accept_client s client fd) client) = [] \<and>
   (process_message s client msg = Inr s' \<longrightarrow>
      client_list s' = client_list s \<and>
      (\<forall>p. id_c (heap s' p) =
            (if type msg = LOGIN \<and> is_valid_user (source msg) (data msg) \<and>
                \<not> is_already_logged_in s (source msg) \<and> p = client
             then source msg else id_c (heap s p)))) \<and>
   (handle_client s client fd input = Inr s'' \<longrightarrow> client_list s'' = client_list s) \<and>
   (type msg = QUERY \<and> length (query_list s) < MAX_DATA \<longrightarrow>
      process_message s client msg =
        Inr (s\<lparr>outbox := outbox s @
               [(sockfd (heap s client),
                 format_message \<lparr>type = QU_ACK, size_m = of_nat (length (query_list s)),
                                 source = ''server'', data = query_list s\<rparr>)]\<rparr>) \<and>
      query_list s =
        ''Clients: '' @ concat (map (\<lambda>cur. client_line (heap s cur)) (client_list s)) @
        '' Sessions: '' @ concat (map (\<lambda>sess. sess @ '', '') (session_list s)))"
proof (intro conjI impI allI)
  show "client_list (accept_client s client fd) = client # client_list s"
    by (simp add: accept_client_def add_client_def)
  show "id_c (heap (accept_client s client fd) client) = []"
    by (simp add: accept_client_def add_client_def)
next
  assume "process_message s client msg = Inr s'"
  then show "client_list s' = client_list s"
    by (rule process_message_client_list)
next
  fix p
  assume "process_message s client msg = Inr s'"
  then show "id_c (heap s' p) =
            (if type msg = LOGIN \<and> is_valid_user (source msg) (data msg) \<and>
                \<not> is_already_logged_in s (source msg) \<and> p = client
             then source msg else id_c (heap s p))"
    by (rule process_message_ids)
next
  assume "handle_client s client fd input = Inr s''"
  then show "client_list s'' = client_list s"
    by (rule handle_client_client_list)
next
  assume "type msg = QUERY \<and> length (query_list s) < MAX_DATA"
  then show "process_message s client msg =
        Inr (s\<lparr>outbox := outbox s @
               [(sockfd (heap s client),
                 format_message \<lparr>type = QU_ACK, size_m = of_nat (length (query_list s)),
                                 source = ''server'', data = query_list s\<rparr>)]\<rparr>)"
    by (intro query_reply) simp_all
next
  show "query_list s =
        ''Clients: '' @ concat (map (\<lambda>cur. client_line (heap s cur)) (client_list s)) @
        '' Sessions: '' @ concat (map (\<lambda>sess. sess @ '', '') (session_list s))"
    by (simp add: query_list_def)
qed


theorem registry_membership_witness:
  "process_message ex_ken_and_guest 200 \<lparr>type = 1, size_m = 5, source = ''andy'', data = ''12345''\<rparr> =
     Inr ((set_id ex_ken_and_guest 200 ''andy'')
          \<lparr>outbox := outbox ex_ken_and_guest @ [(5, ''2:16:server:Login successful\<newline>'')]\<rparr>) \<and>
   client_list ((set_id ex_ken_and_guest 200 ''andy'')
          \<lparr>outbox := outbox ex_ken_and_guest @ [(5, ''2:16:server:Login successful\<newline>'')]\<rparr>) =
     [200, 100] \<and>
   id_c (heap ((set_id ex_ken_and_guest 200 ''andy'')
          \<lparr>outbox := outbox ex_ken_and_guest @ [(5, ''2:16:server:Login successful\<newline>'')]\<rparr>) 200) =
     ''andy'' \<and>
   handle_client ex_ken_and_guest 300 6 ''12:0:x:\<newline>'' =
     Inr (ex_ken_and_guest
          \<lparr>heap := (heap ex_ken_and_guest)(300 := \<lparr>sockfd = 6, id_c = [], session = []\<rparr>),
           outbox := outbox ex_ken_and_guest @
             [(6, ''13:77:server:Clients:  (session: None),  (session: None), ken (session: None),  Sessions: \<newline>'')]\<rparr>) \<and>
   client_list (ex_ken_and_guest
          \<lparr>heap := (heap ex_ken_and_guest)(300 := \<lparr>sockfd = 6, id_c = [], session = []\<rparr>),
           outbox := outbox ex_ken_and_guest @
             [(6, ''13:77:server:Clients:  (session: None),  (session: None), ken (session: None),  Sessions: \<newline>'')]\<rparr>) = [200, 100] \<and>
   type \<lparr>type = 12, size_m = 0, source = ''ken'', data = []\<rparr> = QUERY \<and>
   length (query_list ex_team) < MAX_DATA \<and>
   view_of (process_message ex_team 100 \<lparr>type = 12, size_m = 0, source = ''ken'', data = []\<rparr>) =
     Inr ([(300, \<lparr>sockfd = 6, id_c = [], session = ''team''\<rparr>),
           (200, \<lparr>sockfd = 5, id_c = ''andy'', session = ''team''\<rparr>),
           (100, \<lparr>sockfd = 4, id_c = ''ken'', session = ''team''\<rparr>)],
          [''team''],
          [(4, ''13:87:server:Clients:  (session: team), andy (session: team), ken (session: team),  Sessions: team, \<newline>'')])"
proof -
  let ?ml = "\<lparr>type = 1, size_m = 5, source = ''andy'', data = ''12345''\<rparr>"
  let ?mq = "\<lparr>type = 12, size_m = 0, source = ''ken'', data = []\<rparr>"
  let ?s1 = "(set_id ex_ken_and_guest 200 ''andy'')
          \<lparr>outbox := outbox ex_ken_and_guest @ [(5, ''2:16:server:Login successful\<newline>'')]\<rparr>"
  let ?s2 = "ex_ken_and_guest
          \<lparr>heap := (heap ex_ken_and_guest)(300 := \<lparr>sockfd = 6, id_c = [], session = []\<rparr>),
           outbox := outbox ex_ken_and_guest @
             [(6, ''13:77:server:Clients:  (session: None),  (session: None), ken (session: None),  Sessions: \<newline>'')]\<rparr>"
  have p: "process_message ex_ken_and_guest 200 ?ml = Inr ?s1"
    by (simp add: eval_defs ex_ken_and_guest_def)
  have h: "handle_client ex_ken_and_guest 300 6 ''12:0:x:\<newline>'' = Inr ?s2"
    by (simp add: handle_client_def handle_loop.simps read_line_def eval_defs ex_ken_and_guest_def)
  have t: "type ?mq = QUERY"
    by (simp add: QUERY_def)
  have l: "length (query_list ex_team) < MAX_DATA"
    by (simp add: query_list_def client_line_def ex_team_def MAX_DATA_def)
  note inst1 = registry_membership [where s = ex_ken_and_guest and client = 200 and msg = ?ml
      and s' = ?s1 and fd = 6 and input = "''12:0:x:\<newline>''" and s'' = ?s2]
  note inst2 = registry_membership [where s = ex_ken_and_guest and client = 300 and msg = ?ml
      and s' = ?s1 and fd = 6 and input = "''12:0:x:\<newline>''" and s'' = ?s2]
  note inst3 = registry_membership [where s = ex_team and client = 100 and msg = ?mq]
  from inst1 p have a: "client_list ?s1 = [200, 100]" and b: "id_c (heap ?s1 200) = ''andy''"
    by (simp_all add: ex_ken_and_guest_def is_valid_user_iff LOGIN_def is_already_logged_in_def)
  from inst2 h have c: "client_list ?s2 = [200, 100]"
    by (simp add: ex_ken_and_guest_def)
  from inst3 t l have "process_message ex_team 100 ?mq =
        Inr (ex_team\<lparr>outbox := outbox ex_team @
               [(sockfd (heap ex_team 100),
                 format_message \<lparr>type = QU_ACK, size_m = of_nat (length (query_list ex_team)),
                                 source = ''server'', data = query_list ex_team\<rparr>)]\<rparr>)"
    by blast
  then have q: "view_of (process_message ex_team 100 ?mq) =
     Inr ([(300, \<lparr>sockfd = 6, id_c = [], session = ''team''\<rparr>),
           (200, \<lparr>sockfd = 5, id_c = ''andy'', session = ''team''\<rparr>),
           (100, \<lparr>sockfd = 4, id_c = ''ken'', session = ''team''\<rparr>)],
          [''team''],
          [(4, ''13:87:server:Clients:  (session: team), andy (session: team), ken (session: team),  Sessions: team, \<newline>'')])"
    by (simp add: view_of_def view_def ex_team_def query_list_def client_line_def
        format_message_def dec.simps digit_char_def QU_ACK_def colon_def newline_def)
  from p a b h c t l q show ?thesis by blast
qed

section \<open>No operation but LOGIN looks at the identifier\<close>

lemma session_has_clients_set_id [simp]:
  "session_has_clients (set_id s client i) n = session_has_clients s n"
  by (auto simp: session_has_clients_def session_has_clients_from_iff set_id_def)

lemma client_update_twist:
  "(c :: client_t)\<lparr>id_c := i, session := n\<rparr> = c\<lparr>session := n, id_c := i\<rparr>"
  by (cases c) simp

lemma set_id_set_session:
  "set_session (set_id s client i) client n = set_id (set_session s client n) client i"
  by (simp add: set_id_def set_session_def client_update_twist)

lemma remove_session_if_empty_set_id:
  "remove_session_if_empty (set_id s client i) n = set_id (remove_session_if_empty s n) client i"
  by (simp add: remove_session_if_empty_def) (simp add: set_id_def)

lemma send_reply_set_id:
  assumes "length (source m) < MAX_NAME" and "length (data m) < MAX_DATA"
  shows "send_message_to_client (set_id s client i) fd m =
           map_sum id (\<lambda>s'. set_id s' client i) (send_message_to_client s fd m)"
  by (simp add: send_fits [OF assms]) (simp add: set_id_def)

lemma join_set_id:
  assumes "type msg = JOIN"
  shows "process_message (set_id s client i) client msg =
           map_sum id (\<lambda>s'. set_id s' client i) (process_message s client msg)"
proof -
  have ne: "type msg \<noteq> LOGIN" "type msg \<noteq> EXIT"
    using assms by (simp_all add: type_codes)
  have same [simp]: "session (heap (set_id s client i) client) = session (heap s client)"
    "sockfd (heap (set_id s client i) client) = sockfd (heap s client)"
    "find_session (set_id s client i) (data msg) = find_session s (data msg)"
    by (simp_all add: set_id_def find_session_def)
  show ?thesis
    using ne assms
    by (simp add: process_message_def send_reply_set_id set_id_set_session reply0_def
        with_size_def MAX_NAME_def MAX_DATA_def strncpy_name_def)
qed

lemma new_sess_set_id:
  assumes "type msg = NEW_SESS"
  shows "process_message (set_id s client i) client msg =
           map_sum id (\<lambda>s'. set_id s' client i) (process_message s client msg)"
proof -
  have ne: "type msg \<noteq> LOGIN" "type msg \<noteq> EXIT" "type msg \<noteq> JOIN"
    using assms by (simp_all add: type_codes)
  have same [simp]: "session (heap (set_id s client i) client) = session (heap s client)"
    "sockfd (heap (set_id s client i) client) = sockfd (heap s client)"
    "find_session (set_id s client i) (data msg) = find_session s (data msg)"
    by (simp_all add: set_id_def find_session_def)
  have add: "(set_id s client i)\<lparr>session_list := n # session_list (set_id s client i)\<rparr> =
      set_id (s\<lparr>session_list := n # session_list s\<rparr>) client i" for n
    by (simp add: set_id_def)
  show ?thesis
    using ne assms
    by (simp add: process_message_def send_reply_set_id set_id_set_session reply0_def
        with_size_def MAX_NAME_def MAX_DATA_def strncpy_name_def add_session_def add)
qed

lemma leave_sess_set_id:
  assumes "type msg = LEAVE_SESS"
  shows "process_message (set_id s client i) client msg =
           map_sum id (\<lambda>s'. set_id s' client i) (process_message s client msg)"
proof -
  have ne: "type msg \<noteq> LOGIN" "type msg \<noteq> EXIT" "type msg \<noteq> JOIN" "type msg \<noteq> NEW_SESS"
    using assms by (simp_all add: type_codes)
  have same [simp]: "session (heap (set_id s client i) client) = session (heap s client)"
    "sockfd (heap (set_id s client i) client) = sockfd (heap s client)"
    by (simp_all add: set_id_def)
  show ?thesis
    using ne assms
    by (simp add: process_message_def send_reply_set_id set_id_set_session reply0_def
        with_size_def MAX_NAME_def MAX_DATA_def remove_session_if_empty_set_id Let_def)
qed


lemma join_reply:
  assumes "type msg = JOIN"
  shows "process_message s client msg =
           (if find_session s (data msg) = None then
              Inr (s\<lparr>outbox := outbox s @
                     [(sockfd (heap s client),
                       format_message \<lparr>type = JN_NAK, size_m = 22, source = ''server'',
                                       data = ''Session does not exist''\<rparr>)]\<rparr>)
            else if session (heap s client) \<noteq> [] then
              Inr (s\<lparr>outbox := outbox s @
                     [(sockfd (heap s client),
                       format_message \<lparr>type = JN_NAK, size_m = 20, source = ''server'',
                                       data = ''Already in a session''\<rparr>)]\<rparr>)
            else
              Inr ((set_session s client (take MAX_NAME (data msg)))
                   \<lparr>outbox := outbox s @
                      [(sockfd (heap s client),
                        format_message \<lparr>type = JN_ACK, size_m = 14, source = ''server'',
                                        data = ''Joined session''\<rparr>)]\<rparr>))"
proof -
  have ne: "type msg \<noteq> LOGIN" "type msg \<noteq> EXIT"
    using assms by (simp_all add: type_codes)
  show ?thesis
    using ne assms
    by (simp add: process_message_def strncpy_name_def send_fits reply0_def
        with_size_def set_session_def MAX_NAME_def MAX_DATA_def)
qed

lemma leave_sess_reply:
  assumes "type msg = LEAVE_SESS"
  shows "process_message s client msg =
           (if session (heap s client) = [] then
              Inr (s\<lparr>outbox := outbox s @
                     [(sockfd (heap s client),
                       format_message \<lparr>type = LEAVE_SESS, size_m = 16, source = ''server'',
                                       data = ''Not in a session''\<rparr>)]\<rparr>)
            else
              Inr ((remove_session_if_empty (set_session s client []) (data msg))
                   \<lparr>outbox := outbox s @
                      [(sockfd (heap s client),
                        format_message \<lparr>type = LEAVE_SESS, size_m = 12, source = ''server'',
                                        data = ''Left session''\<rparr>)]\<rparr>))"
proof -
  have ne: "type msg \<noteq> LOGIN" "type msg \<noteq> EXIT" "type msg \<noteq> JOIN" "type msg \<noteq> NEW_SESS"
    using assms by (simp_all add: type_codes)
  have ob: "outbox (remove_session_if_empty (set_session s client []) (data msg)) = outbox s"
    by (simp add: remove_session_if_empty_frame set_session_def)
  show ?thesis
    using ne assms
    by (simp add: process_message_def send_fits reply0_def with_size_def MAX_NAME_def
        MAX_DATA_def Let_def ob)
qed

text \<open>
  MESSAGE is the one case where the identifier of the sender decides what happens:
  it is the identifier the broadcast leaves out.  The frame has the result it
  would have under the identifier \<open>i\<close> when neither \<open>i\<close> nor the identifier the
  sender has is held by another member of its session.
\<close>

lemma message_set_id:
  assumes "type msg = MESSAGE"
    and "length (source msg) < MAX_NAME" and "length (data msg) < MAX_DATA"
    and others: "\<forall>cur \<in> set (client_list s).
        cur \<noteq> client \<and> session (heap s cur) = session (heap s client) \<longrightarrow>
        id_c (heap s cur) \<noteq> id_c (heap s client) \<and> id_c (heap s cur) \<noteq> i"
  shows "process_message (set_id s client i) client msg =
           map_sum id (\<lambda>s'. set_id s' client i) (process_message s client msg)"
proof -
  have ne: "type msg \<noteq> LOGIN" "type msg \<noteq> EXIT" "type msg \<noteq> JOIN" "type msg \<noteq> NEW_SESS"
    "type msg \<noteq> LEAVE_SESS"
    using assms(1) by (simp_all add: type_codes)
  have fits: "length (format_message msg) < 2048"
    using assms(2,3) by (rule format_fits)
  let ?S = "session (heap s client)"
  have filt: "filter (\<lambda>cur. session (heap (set_id s client i) cur) = ?S \<and>
                              id_c (heap (set_id s client i) cur) \<noteq> i) (client_list s) =
              filter (\<lambda>cur. session (heap s cur) = ?S \<and>
                              id_c (heap s cur) \<noteq> id_c (heap s client)) (client_list s)"
    using others by (intro filter_cong) (auto simp: set_id_def)
  have same: "session (heap (set_id s client i) client) = ?S"
    "id_c (heap (set_id s client i) client) = i"
    "client_list (set_id s client i) = client_list s"
    "outbox (set_id s client i) = outbox s"
    "\<And>cur. sockfd (heap (set_id s client i) cur) = sockfd (heap s cur)"
    by (simp_all add: set_id_def)
  have upd: "(set_id s client i)\<lparr>outbox := ob\<rparr> = set_id (s\<lparr>outbox := ob\<rparr>) client i" for ob
    by (simp add: set_id_def)
  show ?thesis
    using ne assms(1)
    by (simp add: process_message_def broadcast_message_def broadcast_from_sends [OF fits]
        same filt upd)
qed

text \<open>
  Claim C10 says that a MESSAGE frame from a connection that has not logged in is
  processed as one from a logged-in client.  It is not.  Two connections that have
  not logged in create and join the session room; the MESSAGE of the first is sent
  to nobody, since the second holds the same, empty identifier.  With the first
  connection logged in as ken, and all else the same, the frame reaches the
  second.
\<close>

theorem guest_message_skips_guests:
  "view_of (run init_server
      [Connect 300 6, Line 300 ''9:4:ken:room'', Connect 400 7, Line 400 ''5:4:y:room'',
       Line 300 ''11:2:ken:hi'']) =
     Inr ([(400, \<lparr>sockfd = 7, id_c = [], session = ''room''\<rparr>),
           (300, \<lparr>sockfd = 6, id_c = [], session = ''room''\<rparr>)],
          [''room''],
          [(6, ''10:15:server:Session created\<newline>''),
           (7, ''6:14:server:Joined session\<newline>'')]) \<and>
   view_of (run init_server
      [Connect 300 6, Line 300 ''1:5:ken:12345'', Line 300 ''9:4:ken:room'', Connect 400 7,
       Line 400 ''5:4:y:room'', Line 300 ''11:2:ken:hi'']) =
     Inr ([(400, \<lparr>sockfd = 7, id_c = [], session = ''room''\<rparr>),
           (300, \<lparr>sockfd = 6, id_c = ''ken'', session = ''room''\<rparr>)],
          [''room''],
          [(6, ''2:16:server:Login successful\<newline>''),
           (6, ''10:15:server:Session created\<newline>''),
           (7, ''6:14:server:Joined session\<newline>''),
           (7, ''11:2:ken:hi\<newline>'')])"
  by (simp add: eval_defs)

text \<open>
  Claim C10, as the code has it.  \<^verbatim>\<open>process_message\<close> never tests whether the
  client has logged in.  For a client with the empty identifier: JOIN, NEW\_SESS and
  LEAVE\_SESS are answered and change the registries by the rules of their cases,
  which do not read the identifier, so that the result is the one the frame would
  have had under any identifier \<open>i\<close>; QUERY is answered with the QU\_ACK listing;
  MESSAGE is sent on by the rule of the broadcast, which for the empty identifier
  means to the members of the session whose identifier is not empty, and that is
  the result the frame would have had under the identifier \<open>i\<close> when every other
  member of the session is logged in under another identifier than \<open>i\<close>.
\<close>

theorem no_login_gate:
  assumes "id_c (heap s client) = []"
  shows "(type msg = JOIN \<longrightarrow>
            process_message s client msg =
              (if find_session s (data msg) = None then
                 Inr (s\<lparr>outbox := outbox s @
                        [(sockfd (heap s client),
                          format_message \<lparr>type = JN_NAK, size_m = 22, source = ''server'',
                                          data = ''Session does not exist''\<rparr>)]\<rparr>)
               else if session (heap s client) \<noteq> [] then
                 Inr (s\<lparr>outbox := outbox s @
                        [(sockfd (heap s client),
                          format_message \<lparr>type = JN_NAK, size_m = 20, source = ''server'',
                                          data = ''Already in a session''\<rparr>)]\<rparr>)
               else
                 Inr ((set_session s client (take MAX_NAME (data msg)))
                      \<lparr>outbox := outbox s @
                         [(sockfd (heap s client),
                           format_message \<lparr>type = JN_ACK, size_m = 14, source = ''server'',
                                           data = ''Joined session''\<rparr>)]\<rparr>))) \<and>
         (type msg = NEW_SESS \<longrightarrow>
            process_message s client msg =
              (if session (heap s client) \<noteq> [] then
                 Inr (s\<lparr>outbox := outbox s @
                        [(sockfd (heap s client),
                          format_message \<lparr>type = NS_ACK, size_m = 20, source = ''server'',
                                          data = ''Already in a session''\<rparr>)]\<rparr>)
               else if find_session s (data msg) \<noteq> None then
                 Inr (s\<lparr>outbox := outbox s @
                        [(sockfd (heap s client),
                          format_message \<lparr>type = NS_ACK, size_m = 22, source = ''server'',
                                          data = ''Session already exists''\<rparr>)]\<rparr>)
               else
                 Inr ((set_session (s\<lparr>session_list := take MAX_NAME (data msg) # session_list s\<rparr>)
                         client (take MAX_NAME (data msg)))
                      \<lparr>outbox := outbox s @
                         [(sockfd (heap s client),
                           format_message \<lparr>type = NS_ACK, size_m = 15, source = ''server'',
                                           data = ''Session created''\<rparr>)]\<rparr>))) \<and>
         (type msg = LEAVE_SESS \<longrightarrow>
            process_message s client msg =
              (if session (heap s client) = [] then
                 Inr (s\<lparr>outbox := outbox s @
                        [(sockfd (heap s client),
                          format_message \<lparr>type = LEAVE_SESS, size_m = 16, source = ''server'',
                                          data = ''Not in a session''\<rparr>)]\<rparr>)
               else
                 Inr ((remove_session_if_empty (set_session s client []) (data msg))
                      \<lparr>outbox := outbox s @
                         [(sockfd (heap s client),
                           format_message \<lparr>type = LEAVE_SESS, size_m = 12, source = ''server'',
                                           data = ''Left session''\<rparr>)]\<rparr>))) \<and>
         (type msg = QUERY \<and> length (query_list s) < MAX_DATA \<longrightarrow>
            process_message s client msg =
              Inr (s\<lparr>outbox := outbox s @
                     [(sockfd (heap s client),
                       format_message \<lparr>type = QU_ACK, size_m = of_nat (length (query_list s)),
                                       source = ''server'', data = query_list s\<rparr>)]\<rparr>)) \<and>
         (type msg = MESSAGE \<and> session (heap s client) \<noteq> [] \<and>
          length (source msg) < MAX_NAME \<and> length (data msg) < MAX_DATA \<longrightarrow>
            process_message s client msg =
              Inr (s\<lparr>outbox := outbox s @
                     map (\<lambda>cur. (sockfd (heap s cur), format_message msg))
                       (filter (\<lambda>cur. session (heap s cur) = session (heap s client) \<and>
                                        id_c (heap s cur) \<noteq> []) (client_list s))\<rparr>)) \<and>
         (type msg \<in> {JOIN, NEW_SESS, LEAVE_SESS} \<longrightarrow>
            process_message (set_id s client i) client msg =
              map_sum id (\<lambda>s'. set_id s' client i) (process_message s client msg)) \<and>
         (type msg = MESSAGE \<and> length (source msg) < MAX_NAME \<and> length (data msg) < MAX_DATA \<and>
          (\<forall>cur \<in> set (client_list s).
             cur \<noteq> client \<and> session (heap s cur) = session (heap s client) \<longrightarrow>
             id_c (heap s cur) \<noteq> [] \<and> id_c (heap s cur) \<noteq> i) \<longrightarrow>
            process_message (set_id s client i) client msg =
              map_sum id (\<lambda>s'. set_id s' client i) (process_message s client msg))"
proof -
  have j: "type msg = JOIN \<longrightarrow> process_message s client msg =
              (if find_session s (data msg) = None then
                 Inr (s\<lparr>outbox := outbox s @
                        [(sockfd (heap s client),
                          format_message \<lparr>type = JN_NAK, size_m = 22, source = ''server'',
                                          data = ''Session does not exist''\<rparr>)]\<rparr>)
               else if session (heap s client) \<noteq> [] then
                 Inr (s\<lparr>outbox := outbox s @
                        [(sockfd (heap s client),
                          format_message \<lparr>type = JN_NAK, size_m = 20, source = ''server'',
                                          data = ''Already in a session''\<rparr>)]\<rparr>)
               else
                 Inr ((set_session s client (take MAX_NAME (data msg)))
                      \<lparr>outbox := outbox s @
                         [(sockfd (heap s client),
                           format_message \<lparr>type = JN_ACK, size_m = 14, source = ''server'',
                                           data = ''Joined session''\<rparr>)]\<rparr>))"
    using join_reply by blast
  have n: "type msg = NEW_SESS \<longrightarrow> process_message s client msg =
              (if session (heap s client) \<noteq> [] then
                 Inr (s\<lparr>outbox := outbox s @
                        [(sockfd (heap s client),
                          format_message \<lparr>type = NS_ACK, size_m = 20, source = ''server'',
                                          data = ''Already in a session''\<rparr>)]\<rparr>)
               else if find_session s (data msg) \<noteq> None then
                 Inr (s\<lparr>outbox := outbox s @
                        [(sockfd (heap s client),
                          format_message \<lparr>type = NS_ACK, size_m = 22, source = ''server'',
                                          data = ''Session already exists''\<rparr>)]\<rparr>)
               else
                 Inr ((set_session (s\<lparr>session_list := take MAX_NAME (data msg) # session_list s\<rparr>)
                         client (take MAX_NAME (data msg)))
                      \<lparr>outbox := outbox s @
                         [(sockfd (heap s client),
                           format_message \<lparr>type = NS_ACK, size_m = 15, source = ''server'',
                                           data = ''Session created''\<rparr>)]\<rparr>))"
    using new_sess_reply by blast
  have l: "type msg = LEAVE_SESS \<longrightarrow> process_message s client msg =
              (if session (heap s client) = [] then
                 Inr (s\<lparr>outbox := outbox s @
                        [(sockfd (heap s client),
                          format_message \<lparr>type = LEAVE_SESS, size_m = 16, source = ''server'',
                                          data = ''Not in a session''\<rparr>)]\<rparr>)
               else
                 Inr ((remove_session_if_empty (set_session s client []) (data msg))
                      \<lparr>outbox := outbox s @
                         [(sockfd (heap s client),
                           format_message \<lparr>type = LEAVE_SESS, size_m = 12, source = ''server'',
                                           data = ''Left session''\<rparr>)]\<rparr>))"
    using leave_sess_reply by blast
  have q: "type msg = QUERY \<and> length (query_list s) < MAX_DATA \<longrightarrow>
            process_message s client msg =
              Inr (s\<lparr>outbox := outbox s @
                     [(sockfd (heap s client),
                       format_message \<lparr>type = QU_ACK, size_m = of_nat (length (query_list s)),
                                       source = ''server'', data = query_list s\<rparr>)]\<rparr>)"
    using query_reply by blast
  have m: "process_message s client msg =
              Inr (s\<lparr>outbox := outbox s @
                     map (\<lambda>cur. (sockfd (heap s cur), format_message msg))
                       (filter (\<lambda>cur. session (heap s cur) = session (heap s client) \<and>
                                        id_c (heap s cur) \<noteq> []) (client_list s))\<rparr>)"
    if a: "type msg = MESSAGE \<and> session (heap s client) \<noteq> [] \<and>
          length (source msg) < MAX_NAME \<and> length (data msg) < MAX_DATA"
  proof -
    from a have fits: "length (format_message msg) < 2048"
      by (intro format_fits) simp_all
    have "type msg \<noteq> LOGIN" "type msg \<noteq> EXIT" "type msg \<noteq> JOIN" "type msg \<noteq> NEW_SESS"
      "type msg \<noteq> LEAVE_SESS"
      using a by (simp_all add: type_codes)
    then show ?thesis
      using a assms broadcast_from_sends [OF fits]
      by (simp add: process_message_def broadcast_message_def)
  qed
  have r: "type msg \<in> {JOIN, NEW_SESS, LEAVE_SESS} \<longrightarrow>
            process_message (set_id s client i) client msg =
              map_sum id (\<lambda>s'. set_id s' client i) (process_message s client msg)"
    using join_set_id new_sess_set_id leave_sess_set_id by blast
  have rm: "process_message (set_id s client i) client msg =
              map_sum id (\<lambda>s'. set_id s' client i) (process_message s client msg)"
    if b: "type msg = MESSAGE \<and> length (source msg) < MAX_NAME \<and> length (data msg) < MAX_DATA \<and>
          (\<forall>cur \<in> set (client_list s).
             cur \<noteq> client \<and> session (heap s cur) = session (heap s client) \<longrightarrow>
             id_c (heap s cur) \<noteq> [] \<and> id_c (heap s cur) \<noteq> i)"
    using b assms by (intro message_set_id) simp_all
  from j n l q m r rm show ?thesis
    by blast
qed

theorem no_login_gate_witness:
  "id_c (heap (accept_client ex_in_session 400 7) 400) = [] \<and>
   id_c (heap ex_ken_and_guest 200) = [] \<and> id_c (heap ex_team 300) = [] \<and>
   view_of (process_message (accept_client ex_in_session 400 7) 400
              \<lparr>type = 5, size_m = 1, source = ''x'', data = ''A''\<rparr>) =
     Inr ([(400, \<lparr>sockfd = 7, id_c = [], session = ''A''\<rparr>),
           (100, \<lparr>sockfd = 4, id_c = ''ken'', session = ''A''\<rparr>)],
          [''A''],
          [(7, ''6:14:server:Joined session\<newline>'')]) \<and>
   view_of (process_message ex_ken_and_guest 200
              \<lparr>type = 9, size_m = 1, source = ''x'', data = ''S''\<rparr>) =
     Inr ([(200, \<lparr>sockfd = 5, id_c = [], session = ''S''\<rparr>),
           (100, \<lparr>sockfd = 4, id_c = ''ken'', session = []\<rparr>)],
          [''S''],
          [(4, ''2:16:server:Login successful\<newline>''),
           (5, ''10:15:server:Session created\<newline>'')]) \<and>
   view_of (process_message ex_team 300
              \<lparr>type = 8, size_m = 0, source = ''x'', data = []\<rparr>) =
     Inr ([(300, \<lparr>sockfd = 6, id_c = [], session = []\<rparr>),
           (200, \<lparr>sockfd = 5, id_c = ''andy'', session = ''team''\<rparr>),
           (100, \<lparr>sockfd = 4, id_c = ''ken'', session = ''team''\<rparr>)],
          [''team''],
          [(6, ''8:12:server:Left session\<newline>'')]) \<and>
   view_of (process_message ex_ken_and_guest 200
              \<lparr>type = 12, size_m = 0, source = ''x'', data = []\<rparr>) =
     Inr ([(200, \<lparr>sockfd = 5, id_c = [], session = []\<rparr>),
           (100, \<lparr>sockfd = 4, id_c = ''ken'', session = []\<rparr>)],
          [],
          [(4, ''2:16:server:Login successful\<newline>''),
           (5, ''13:59:server:Clients:  (session: None), ken (session: None),  Sessions: \<newline>'')]) \<and>
   view_of (process_message ex_team 300
              \<lparr>type = 11, size_m = 2, source = ''x'', data = ''hi''\<rparr>) =
     Inr ([(300, \<lparr>sockfd = 6, id_c = [], session = ''team''\<rparr>),
           (200, \<lparr>sockfd = 5, id_c = ''andy'', session = ''team''\<rparr>),
           (100, \<lparr>sockfd = 4, id_c = ''ken'', session = ''team''\<rparr>)],
          [''team''],
          [(5, ''11:2:x:hi\<newline>''), (4, ''11:2:x:hi\<newline>'')]) \<and>
   view_of (process_message (set_id ex_ken_and_guest 200 ''andy'') 200
              \<lparr>type = 9, size_m = 1, source = ''x'', data = ''S''\<rparr>) =
     Inr ([(200, \<lparr>sockfd = 5, id_c = ''andy'', session = ''S''\<rparr>),
           (100, \<lparr>sockfd = 4, id_c = ''ken'', session = []\<rparr>)],
          [''S''],
          [(4, ''2:16:server:Login successful\<newline>''),
           (5, ''10:15:server:Session created\<newline>'')]) \<and>
   view_of (process_message (set_id ex_team 300 ''guest'') 300
              \<lparr>type = 11, size_m = 2, source = ''x'', data = ''hi''\<rparr>) =
     Inr ([(300, \<lparr>sockfd = 6, id_c = ''guest'', session = ''team''\<rparr>),
           (200, \<lparr>sockfd = 5, id_c = ''andy'', session = ''team''\<rparr>),
           (100, \<lparr>sockfd = 4, id_c = ''ken'', session = ''team''\<rparr>)],
          [''team''],
          [(5, ''11:2:x:hi\<newline>''), (4, ''11:2:x:hi\<newline>'')])"
proof -
  let ?mj = "\<lparr>type = 5, size_m = 1, source = ''x'', data = ''A''\<rparr>"
  let ?mn = "\<lparr>type = 9, size_m = 1, source = ''x'', data = ''S''\<rparr>"
  let ?ml = "\<lparr>type = 8, size_m = 0, source = ''x'', data = []\<rparr>"
  let ?mq = "\<lparr>type = 12, size_m = 0, source = ''x'', data = []\<rparr>"
  let ?mm = "\<lparr>type = 11, size_m = 2, source = ''x'', data = ''hi''\<rparr>"
  let ?sj = "accept_client ex_in_session 400 7"
  have gj: "id_c (heap ?sj 400) = []"
    by (simp add: accept_client_def add_client_def)
  have gk: "id_c (heap ex_ken_and_guest 200) = []"
    by (simp add: ex_ken_and_guest_def)
  have gt: "id_c (heap ex_team 300) = []"
    by (simp add: ex_team_def)
  note fmt = format_message_def dec.simps digit_char_def colon_def newline_def
    view_of_def view_def type_codes MAX_NAME_def find_session_def set_session_def set_id_def
  have tj: "type ?mj = JOIN" by (simp add: JOIN_def)
  have tn: "type ?mn = NEW_SESS" by (simp add: NEW_SESS_def)
  have tl: "type ?ml = LEAVE_SESS" by (simp add: LEAVE_SESS_def)
  have tq: "type ?mq = QUERY \<and> length (query_list ex_ken_and_guest) < MAX_DATA"
    by (simp add: QUERY_def query_list_def client_line_def ex_ken_and_guest_def MAX_DATA_def)
  have tm: "type ?mm = MESSAGE \<and> session (heap ex_team 300) \<noteq> [] \<and>
      length (source ?mm) < MAX_NAME \<and> length (data ?mm) < MAX_DATA"
    by (simp add: MESSAGE_def ex_team_def MAX_NAME_def MAX_DATA_def)
  have tr: "type ?mn \<in> {JOIN, NEW_SESS, LEAVE_SESS}"
    by (simp add: NEW_SESS_def)
  have trm: "type ?mm = MESSAGE \<and> length (source ?mm) < MAX_NAME \<and> length (data ?mm) < MAX_DATA \<and>
      (\<forall>cur \<in> set (client_list ex_team).
         cur \<noteq> 300 \<and> session (heap ex_team cur) = session (heap ex_team 300) \<longrightarrow>
         id_c (heap ex_team cur) \<noteq> [] \<and> id_c (heap ex_team cur) \<noteq> ''guest'')"
    by (simp add: MESSAGE_def ex_team_def MAX_NAME_def MAX_DATA_def)
  have cj: "view_of (process_message ?sj 400 ?mj) =
     Inr ([(400, \<lparr>sockfd = 7, id_c = [], session = ''A''\<rparr>),
           (100, \<lparr>sockfd = 4, id_c = ''ken'', session = ''A''\<rparr>)],
          [''A''],
          [(7, ''6:14:server:Joined session\<newline>'')])"
    using no_login_gate [where s = ?sj and client = 400 and msg = ?mj, OF gj,
        THEN conjunct1, THEN mp, OF tj]
    by (simp add: fmt ex_in_session_def accept_client_def add_client_def)
  have cn: "view_of (process_message ex_ken_and_guest 200 ?mn) =
     Inr ([(200, \<lparr>sockfd = 5, id_c = [], session = ''S''\<rparr>),
           (100, \<lparr>sockfd = 4, id_c = ''ken'', session = []\<rparr>)],
          [''S''],
          [(4, ''2:16:server:Login successful\<newline>''),
           (5, ''10:15:server:Session created\<newline>'')])"
    using no_login_gate [where s = ex_ken_and_guest and client = 200 and msg = ?mn, OF gk,
        THEN conjunct2, THEN conjunct1, THEN mp, OF tn]
    by (simp add: fmt ex_ken_and_guest_def)
  have cl: "view_of (process_message ex_team 300 ?ml) =
     Inr ([(300, \<lparr>sockfd = 6, id_c = [], session = []\<rparr>),
           (200, \<lparr>sockfd = 5, id_c = ''andy'', session = ''team''\<rparr>),
           (100, \<lparr>sockfd = 4, id_c = ''ken'', session = ''team''\<rparr>)],
          [''team''],
          [(6, ''8:12:server:Left session\<newline>'')])"
    using no_login_gate [where s = ex_team and client = 300 and msg = ?ml, OF gt,
        THEN conjunct2, THEN conjunct2, THEN conjunct1, THEN mp, OF tl]
    by (simp add: fmt ex_team_def remove_session_if_empty_def session_has_clients_def)
  have cq: "view_of (process_message ex_ken_and_guest 200 ?mq) =
     Inr ([(200, \<lparr>sockfd = 5, id_c = [], session = []\<rparr>),
           (100, \<lparr>sockfd = 4, id_c = ''ken'', session = []\<rparr>)],
          [],
          [(4, ''2:16:server:Login successful\<newline>''),
           (5, ''13:59:server:Clients:  (session: None), ken (session: None),  Sessions: \<newline>'')])"
    using no_login_gate [where s = ex_ken_and_guest and client = 200 and msg = ?mq, OF gk,
        THEN conjunct2, THEN conjunct2, THEN conjunct2, THEN conjunct1, THEN mp, OF tq]
    by (simp add: fmt ex_ken_and_guest_def query_list_def client_line_def)
  have cm: "view_of (process_message ex_team 300 ?mm) =
     Inr ([(300, \<lparr>sockfd = 6, id_c = [], session = ''team''\<rparr>),
           (200, \<lparr>sockfd = 5, id_c = ''andy'', session = ''team''\<rparr>),
           (100, \<lparr>sockfd = 4, id_c = ''ken'', session = ''team''\<rparr>)],
          [''team''],
          [(5, ''11:2:x:hi\<newline>''), (4, ''11:2:x:hi\<newline>'')])"
    using no_login_gate [where s = ex_team and client = 300 and msg = ?mm, OF gt,
        THEN conjunct2, THEN conjunct2, THEN conjunct2, THEN conjunct2, THEN conjunct1,
        THEN mp, OF tm]
    by (simp add: fmt ex_team_def)
  have cr: "view_of (process_message (set_id ex_ken_and_guest 200 ''andy'') 200 ?mn) =
     Inr ([(200, \<lparr>sockfd = 5, id_c = ''andy'', session = ''S''\<rparr>),
           (100, \<lparr>sockfd = 4, id_c = ''ken'', session = []\<rparr>)],
          [''S''],
          [(4, ''2:16:server:Login successful\<newline>''),
           (5, ''10:15:server:Session created\<newline>'')])"
    using no_login_gate [where s = ex_ken_and_guest and client = 200 and msg = ?mn
        and i = "''andy''", OF gk,
        THEN conjunct2, THEN conjunct2, THEN conjunct2, THEN conjunct2, THEN conjunct2,
        THEN conjunct1, THEN mp, OF tr]
    by (simp add: eval_defs ex_ken_and_guest_def)
  have crm: "view_of (process_message (set_id ex_team 300 ''guest'') 300 ?mm) =
     Inr ([(300, \<lparr>sockfd = 6, id_c = ''guest'', session = ''team''\<rparr>),
           (200, \<lparr>sockfd = 5, id_c = ''andy'', session = ''team''\<rparr>),
           (100, \<lparr>sockfd = 4, id_c = ''ken'', session = ''team''\<rparr>)],
          [''team''],
          [(5, ''11:2:x:hi\<newline>''), (4, ''11:2:x:hi\<newline>'')])"
    using no_login_gate [where s = ex_team and client = 300 and msg = ?mm
        and i = "''guest''", OF gt,
        THEN conjunct2, THEN conjunct2, THEN conjunct2, THEN conjunct2, THEN conjunct2,
        THEN conjunct2, THEN mp, OF trm]
    by (simp add: eval_defs ex_team_def)
  from gj gk gt cj cn cl cq cm cr crm show ?thesis by blast
qed

end
